theory Spec2Isabelle
  imports Complex_Main
begin

section \<open>Numbers as the valuation code sees them\<close>

text \<open>
  The two calculators of the repository (\<^verbatim>\<open>src/models/dcf_model.py\<close> and
  \<^verbatim>\<open>src/models/comp_analysis.py\<close>) compute with binary64 numbers. Their
  arithmetic is modelled on the extended reals with a not-a-number element: finite values
  are exact reals (rounding, overflow to infinity and the sign of zero are not modelled;
  a zero is the positive zero), and the three special values behave as IEEE 754
  prescribes. Everything that decides the claims below (which divisions are guarded, what
  a division by zero yields, how a missing value travels) lives at this level.
\<close>

datatype fl = Fin real | PInf | NInf | NaN

fun fl_neg :: "fl \<Rightarrow> fl" where
  "fl_neg (Fin x) = Fin (- x)"
| "fl_neg PInf = NInf"
| "fl_neg NInf = PInf"
| "fl_neg NaN = NaN"

fun fl_add :: "fl \<Rightarrow> fl \<Rightarrow> fl" where
  "fl_add (Fin x) (Fin y) = Fin (x + y)"
| "fl_add NaN b = NaN"
| "fl_add a NaN = NaN"
| "fl_add PInf NInf = NaN"
| "fl_add NInf PInf = NaN"
| "fl_add PInf b = PInf"
| "fl_add a PInf = PInf"
| "fl_add NInf b = NInf"
| "fl_add a NInf = NInf"

definition fl_sub :: "fl \<Rightarrow> fl \<Rightarrow> fl" where
  "fl_sub a b = fl_add a (fl_neg b)"

fun fl_mul :: "fl \<Rightarrow> fl \<Rightarrow> fl" where
  "fl_mul (Fin x) (Fin y) = Fin (x * y)"
| "fl_mul NaN b = NaN"
| "fl_mul a NaN = NaN"
| "fl_mul (Fin x) PInf = (if x = 0 then NaN else if 0 < x then PInf else NInf)"
| "fl_mul (Fin x) NInf = (if x = 0 then NaN else if 0 < x then NInf else PInf)"
| "fl_mul PInf (Fin y) = (if y = 0 then NaN else if 0 < y then PInf else NInf)"
| "fl_mul NInf (Fin y) = (if y = 0 then NaN else if 0 < y then NInf else PInf)"
| "fl_mul PInf PInf = PInf"
| "fl_mul PInf NInf = NInf"
| "fl_mul NInf PInf = NInf"
| "fl_mul NInf NInf = PInf"

text \<open>
  Division as the hardware does it, with no exception: a finite non-zero numerator over
  zero is an infinity of the numerator's sign, zero over zero is not a number.
\<close>

fun fl_div :: "fl \<Rightarrow> fl \<Rightarrow> fl" where
  "fl_div (Fin x) (Fin y) =
     (if y = 0 then (if x = 0 then NaN else if 0 < x then PInf else NInf)
      else Fin (x / y))"
| "fl_div NaN b = NaN"
| "fl_div a NaN = NaN"
| "fl_div (Fin x) PInf = Fin 0"
| "fl_div (Fin x) NInf = Fin 0"
| "fl_div PInf (Fin y) = (if 0 \<le> y then PInf else NInf)"
| "fl_div NInf (Fin y) = (if 0 \<le> y then NInf else PInf)"
| "fl_div PInf PInf = NaN"
| "fl_div PInf NInf = NaN"
| "fl_div NInf PInf = NaN"
| "fl_div NInf NInf = NaN"

text \<open>The comparison \<open><\<close>: false as soon as one side is not a number.\<close>

fun fl_lt :: "fl \<Rightarrow> fl \<Rightarrow> bool" where
  "fl_lt (Fin x) (Fin y) = (x < y)"
| "fl_lt NaN b = False"
| "fl_lt a NaN = False"
| "fl_lt (Fin x) PInf = True"
| "fl_lt (Fin x) NInf = False"
| "fl_lt PInf b = False"
| "fl_lt NInf (Fin y) = True"
| "fl_lt NInf PInf = True"
| "fl_lt NInf NInf = False"

fun fl_sqrt :: "fl \<Rightarrow> fl" where
  "fl_sqrt (Fin x) = (if x < 0 then NaN else Fin (sqrt x))"
| "fl_sqrt PInf = PInf"
| "fl_sqrt NInf = NaN"
| "fl_sqrt NaN = NaN"

fun is_fin :: "fl \<Rightarrow> bool" where
  "is_fin (Fin x) = True"
| "is_fin PInf = False"
| "is_fin NInf = False"
| "is_fin NaN = False"

text \<open>
  A Python number is either a built-in \<^verbatim>\<open>float\<close>/\<^verbatim>\<open>int\<close> (\<open>Py\<close>) or a
  numpy scalar taken out of a pandas object (\<open>Np\<close>). The two differ in one place that
  the claims mention: dividing a built-in number by a zero built-in number raises
  \<^verbatim>\<open>ZeroDivisionError\<close>, while a division in which a numpy scalar takes part
  returns an infinity or a not-a-number. An operation with a numpy operand yields a numpy
  scalar.
\<close>

datatype pynum = Py fl | Np fl

fun val :: "pynum \<Rightarrow> fl" where
  "val (Py x) = x"
| "val (Np x) = x"

fun is_np :: "pynum \<Rightarrow> bool" where
  "is_np (Py x) = False"
| "is_np (Np x) = True"

definition mk :: "bool \<Rightarrow> fl \<Rightarrow> pynum" where
  "mk np x = (if np then Np x else Py x)"

text \<open>The exceptions the two source files can raise.\<close>

datatype error = ValueError | KeyError | IndexError | TypeError | ZeroDivisionError

definition bind_err :: "error + 'a \<Rightarrow> ('a \<Rightarrow> error + 'b) \<Rightarrow> error + 'b" where
  "bind_err r f = (case r of Inl e \<Rightarrow> Inl e | Inr v \<Rightarrow> f v)"

definition py_add :: "pynum \<Rightarrow> pynum \<Rightarrow> pynum" where
  "py_add a b = mk (is_np a \<or> is_np b) (fl_add (val a) (val b))"

definition py_sub :: "pynum \<Rightarrow> pynum \<Rightarrow> pynum" where
  "py_sub a b = mk (is_np a \<or> is_np b) (fl_sub (val a) (val b))"

definition py_mul :: "pynum \<Rightarrow> pynum \<Rightarrow> pynum" where
  "py_mul a b = mk (is_np a \<or> is_np b) (fl_mul (val a) (val b))"

definition py_truediv :: "pynum \<Rightarrow> pynum \<Rightarrow> error + pynum" where
  "py_truediv a b =
     (if \<not> is_np a \<and> \<not> is_np b \<and> val b = Fin 0 then Inl ZeroDivisionError
      else Inr (mk (is_np a \<or> is_np b) (fl_div (val a) (val b))))"

definition py_gt :: "pynum \<Rightarrow> pynum \<Rightarrow> bool" where
  "py_gt a b = fl_lt (val b) (val a)"

text \<open>
  Python's two-argument \<^verbatim>\<open>min(a, b)\<close> and \<^verbatim>\<open>max(a, b)\<close>: the first
  argument is kept unless the second is strictly smaller (strictly greater).
\<close>

definition py_min :: "pynum \<Rightarrow> pynum \<Rightarrow> pynum" where
  "py_min a b = (if fl_lt (val b) (val a) then b else a)"

definition py_max :: "pynum \<Rightarrow> pynum \<Rightarrow> pynum" where
  "py_max a b = (if fl_lt (val a) (val b) then b else a)"

text \<open>Python's \<^verbatim>\<open>sum(xs)\<close>: a left fold that starts from the integer 0.\<close>

definition py_sum :: "pynum list \<Rightarrow> pynum" where
  "py_sum xs = foldl py_add (Py (Fin 0)) xs"

section \<open>The pandas operations the code calls\<close>

text \<open>
  A pandas \<^verbatim>\<open>Series\<close> of dtype float64 is a list of \<open>fl\<close>; a missing entry is
  \<open>NaN\<close>. The functions below follow the documented behaviour of the library calls
  that appear in the source: \<^verbatim>\<open>pct_change\<close> (each entry divided by its
  predecessor, minus one; the first entry has no predecessor), \<^verbatim>\<open>dropna\<close>,
  \<^verbatim>\<open>mean\<close>, \<^verbatim>\<open>median\<close>, \<^verbatim>\<open>min\<close>, \<^verbatim>\<open>max\<close> and
  \<^verbatim>\<open>std\<close> (the sample standard deviation, one delta degree of freedom). The
  reductions are only ever applied after \<^verbatim>\<open>dropna\<close>.
\<close>

fun pct_pairs :: "fl \<Rightarrow> fl list \<Rightarrow> fl list" where
  "pct_pairs prev [] = []"
| "pct_pairs prev (x # xs) = fl_sub (fl_div x prev) (Fin 1) # pct_pairs x xs"

fun pct_change :: "fl list \<Rightarrow> fl list" where
  "pct_change [] = []"
| "pct_change (x # xs) = NaN # pct_pairs x xs"

definition dropna :: "fl list \<Rightarrow> fl list" where
  "dropna xs = filter (\<lambda>x. x \<noteq> NaN) xs"

definition fl_le :: "fl \<Rightarrow> fl \<Rightarrow> bool" where
  "fl_le a b = (a = b \<or> fl_lt a b)"

fun fl_insort :: "fl \<Rightarrow> fl list \<Rightarrow> fl list" where
  "fl_insort x [] = [x]"
| "fl_insort x (y # ys) = (if fl_le x y then x # y # ys else y # fl_insort x ys)"

fun fl_sort :: "fl list \<Rightarrow> fl list" where
  "fl_sort [] = []"
| "fl_sort (x # xs) = fl_insort x (fl_sort xs)"

definition fl_sum :: "fl list \<Rightarrow> fl" where
  "fl_sum xs = foldl fl_add (Fin 0) xs"

definition series_mean :: "fl list \<Rightarrow> fl" where
  "series_mean xs = (if xs = [] then NaN else fl_div (fl_sum xs) (Fin (real (length xs))))"

definition series_median :: "fl list \<Rightarrow> fl" where
  "series_median xs =
     (let s = fl_sort xs; n = length xs in
      if n = 0 then NaN
      else if odd n then s ! (n div 2)
      else fl_div (fl_add (s ! (n div 2 - 1)) (s ! (n div 2))) (Fin 2))"

definition series_min :: "fl list \<Rightarrow> fl" where
  "series_min xs = (if xs = [] then NaN else hd (fl_sort xs))"

definition series_max :: "fl list \<Rightarrow> fl" where
  "series_max xs = (if xs = [] then NaN else last (fl_sort xs))"

definition series_std :: "fl list \<Rightarrow> fl" where
  "series_std xs =
     (if length xs \<le> 1 then NaN
      else let m = series_mean xs;
               sq = map (\<lambda>x. fl_mul (fl_sub x m) (fl_sub x m)) xs
           in fl_sqrt (fl_div (fl_sum sq) (Fin (real (length xs - 1)))))"

text \<open>\<^verbatim>\<open>series.iloc[-1]\<close> and \<^verbatim>\<open>lst[-1]\<close>: the last entry, or an IndexError.\<close>

definition last_item :: "'a list \<Rightarrow> error + 'a" where
  "last_item xs = (if xs = [] then Inl IndexError else Inr (last xs))"

section \<open>The discounted cash flow model\<close>

text \<open>
  What the data provider hands over for one ticker. \<open>cashflow\<close> and \<open>balance_sheet\<close>
  are the two statement tables: a map from a row label to that row's values, one value per
  reporting date, the dates of the cash flow statement being \<open>cashflow_dates\<close> (the
  column labels, as day numbers). The values are numbers: a statement with missing entries
  is outside the model. \<open>info\<close> and \<open>info_text\<close> are the dictionary of quote fields,
  its numbers and its texts. A label or key that the provider does not deliver (or
  delivers as \<^verbatim>\<open>None\<close>) is absent from the map.
\<close>

record yf_stock =
  cashflow_dates :: "int list"
  cashflow :: "string \<rightharpoonup> real list"
  balance_sheet :: "string \<rightharpoonup> real list"
  info :: "string \<rightharpoonup> real"
  info_text :: "string \<rightharpoonup> string"

text \<open>The attributes \<^verbatim>\<open>__init__\<close> stores on a \<^verbatim>\<open>DCFModel\<close>.\<close>

record DCFModel =
  self_ticker :: string
  self_forecast_years :: int
  self_terminal_growth_rate :: real
  self_wacc :: real
  self_stock :: yf_stock

text \<open>
  \<^verbatim>\<open>__init__\<close>: the ticker is stored in upper case (here for the letters a to z)
  and the provider \<open>yf\<close> is asked for it.
\<close>

definition upper_char :: "char \<Rightarrow> char" where
  "upper_char c =
     (let n = (of_char c :: nat) in if 97 \<le> n \<and> n \<le> 122 then char_of (n - 32) else c)"

definition init_dcf :: "(string \<Rightarrow> yf_stock) \<Rightarrow> string \<Rightarrow> int \<Rightarrow> real \<Rightarrow> real \<Rightarrow> DCFModel" where
  "init_dcf yf ticker_name forecast_years g w =
     \<lparr> self_ticker = map upper_char ticker_name, self_forecast_years = forecast_years,
       self_terminal_growth_rate = g, self_wacc = w,
       self_stock = yf (map upper_char ticker_name) \<rparr>"

text \<open>
  \<^verbatim>\<open>series.sort_index()\<close> on a row of the cash flow statement: the values in the
  order of their dates.
\<close>

definition sort_index :: "int list \<Rightarrow> 'a list \<Rightarrow> 'a list" where
  "sort_index dates row = map snd (sort_key fst (zip dates row))"

text \<open>
  \<^verbatim>\<open>get_historical_fcf\<close>: the row labelled Free Cash Flow if the statement has one,
  else operating cash flow plus capital expenditure, where looking up a label that is not
  there raises KeyError; in either case sorted by date.
\<close>

definition get_historical_fcf :: "DCFModel \<Rightarrow> error + fl list" where
  "get_historical_fcf self =
     (let cash_flow = cashflow (self_stock self);
          dates = cashflow_dates (self_stock self) in
      case cash_flow ''Free Cash Flow'' of
        Some fcf \<Rightarrow> Inr (sort_index dates (map Fin fcf))
      | None \<Rightarrow>
          (case cash_flow ''Operating Cash Flow'' of
             None \<Rightarrow> Inl KeyError
           | Some ocf \<Rightarrow>
               (case cash_flow ''Capital Expenditure'' of
                  None \<Rightarrow> Inl KeyError
                | Some capex \<Rightarrow>
                    Inr (sort_index dates (map2 fl_add (map Fin ocf) (map Fin capex))))))"

definition calculate_fcf_growth_rate :: "fl list \<Rightarrow> pynum" where
  "calculate_fcf_growth_rate fcf_historical =
     (if length fcf_historical < 2 then Py (Fin 0.05)
      else let growth_rates = dropna (pct_change fcf_historical);
               median_growth = Np (series_median growth_rates)
           in py_max (py_min median_growth (Py (Fin 0.25))) (Py (Fin (- 0.10))))"

fun project_loop :: "nat \<Rightarrow> pynum \<Rightarrow> pynum \<Rightarrow> pynum list" where
  "project_loop 0 current_fcf growth_rate = []"
| "project_loop (Suc n) current_fcf growth_rate =
     (let nxt = py_mul current_fcf (py_add (Py (Fin 1)) growth_rate)
      in nxt # project_loop n nxt growth_rate)"

text \<open>
  \<^verbatim>\<open>for year in range(1, self.forecast_years + 1)\<close> runs \<open>forecast_years\<close> times, and
  not at all when that number is zero or negative.
\<close>

definition project_fcf :: "DCFModel \<Rightarrow> pynum \<Rightarrow> pynum \<Rightarrow> pynum list" where
  "project_fcf self base_fcf growth_rate =
     project_loop (nat (self_forecast_years self)) base_fcf growth_rate"

definition calculate_terminal_value :: "DCFModel \<Rightarrow> pynum \<Rightarrow> error + pynum" where
  "calculate_terminal_value self final_fcf =
     py_truediv
       (py_mul final_fcf (Py (Fin (1 + self_terminal_growth_rate self))))
       (Py (Fin (self_wacc self - self_terminal_growth_rate self)))"

fun discount_loop :: "real \<Rightarrow> nat \<Rightarrow> pynum list \<Rightarrow> error + pynum list" where
  "discount_loop w t [] = Inr []"
| "discount_loop w t (cf # cfs) =
     bind_err (py_truediv cf (Py (Fin ((1 + w) ^ t)))) (\<lambda>pv.
     bind_err (discount_loop w (Suc t) cfs) (\<lambda>pvs. Inr (pv # pvs)))"

definition discount_cash_flows :: "DCFModel \<Rightarrow> pynum list \<Rightarrow> error + pynum list" where
  "discount_cash_flows self cash_flows = discount_loop (self_wacc self) 1 cash_flows"

text \<open>The dictionary \<^verbatim>\<open>calculate_enterprise_value\<close> returns, key by key.\<close>

record dcf_result =
  ticker :: string
  base_fcf :: pynum
  fcf_growth_rate :: pynum
  projected_fcf :: "pynum list"
  terminal_value :: pynum
  pv_terminal_value :: pynum
  enterprise_value :: pynum
  cash :: pynum
  debt :: pynum
  equity_value :: pynum
  shares_outstanding :: pynum
  intrinsic_value_per_share :: pynum
  current_price :: pynum
  upside_downside_pct :: pynum
  wacc :: real
  terminal_growth_rate :: real

text \<open>
  \<^verbatim>\<open>balance_sheet.loc[label].iloc[0]\<close> inside \<^verbatim>\<open>try\<close>, with
  \<^verbatim>\<open>except: ... = 0\<close>: the first value of the row, or the integer 0 when the row (or
  its first value) is not there.
\<close>

definition balance_item :: "yf_stock \<Rightarrow> string \<Rightarrow> pynum" where
  "balance_item s label =
     (case balance_sheet s label of
        None \<Rightarrow> Py (Fin 0)
      | Some [] \<Rightarrow> Py (Fin 0)
      | Some (v # vs) \<Rightarrow> Np (Fin v))"

text \<open>\<^verbatim>\<open>info.get(key, 0)\<close>.\<close>

definition info_get0 :: "yf_stock \<Rightarrow> string \<Rightarrow> pynum" where
  "info_get0 s key = (case info s key of None \<Rightarrow> Py (Fin 0) | Some v \<Rightarrow> Py (Fin v))"

definition calculate_enterprise_value :: "DCFModel \<Rightarrow> error + dcf_result" where
  "calculate_enterprise_value self =
     bind_err (get_historical_fcf self) (\<lambda>fcf_historical.
      bind_err (last_item fcf_historical) (\<lambda>b.
      let base = Np b;
          growth_rate = calculate_fcf_growth_rate fcf_historical;
          projected = project_fcf self base growth_rate in
      bind_err (last_item projected) (\<lambda>final_fcf.
      bind_err (calculate_terminal_value self final_fcf) (\<lambda>tv.
      bind_err (discount_cash_flows self projected) (\<lambda>pv_fcf.
      bind_err (py_truediv tv
                  (Py (Fin ((1 + self_wacc self) ^ nat (self_forecast_years self))))) (\<lambda>pv_tv.
      let ev = py_add (py_sum pv_fcf) pv_tv;
          csh = balance_item (self_stock self) ''Cash And Cash Equivalents'';
          dbt = balance_item (self_stock self) ''Total Debt'';
          equity = py_sub (py_add ev csh) dbt;
          shares = info_get0 (self_stock self) ''sharesOutstanding'' in
      bind_err (if py_gt shares (Py (Fin 0)) then py_truediv equity shares
                else Inr (Py (Fin 0))) (\<lambda>per_share.
      let price = info_get0 (self_stock self) ''currentPrice'' in
      bind_err (if py_gt price (Py (Fin 0))
                then bind_err (py_truediv (py_sub per_share price) price)
                       (\<lambda>q. Inr (py_mul q (Py (Fin 100))))
                else Inr (Py (Fin 0))) (\<lambda>upside.
      Inr \<lparr> ticker = self_ticker self,
            base_fcf = base,
            fcf_growth_rate = growth_rate,
            projected_fcf = projected,
            terminal_value = tv,
            pv_terminal_value = pv_tv,
            enterprise_value = ev,
            cash = csh,
            debt = dbt,
            equity_value = equity,
            shares_outstanding = shares,
            intrinsic_value_per_share = per_share,
            current_price = price,
            upside_downside_pct = upside,
            wacc = self_wacc self,
            terminal_growth_rate = self_terminal_growth_rate self \<rparr>))))))))"

section \<open>The comparable company analysis\<close>

text \<open>
  The dictionary \<^verbatim>\<open>_extract_metrics\<close> builds for one company: four descriptive
  texts and fifteen figures, each figure a number or \<^verbatim>\<open>None\<close>.
\<close>

record metrics =
  labels :: "string \<rightharpoonup> string"
  figures :: "string \<rightharpoonup> real"

text \<open>Each figure of the dictionary with the provider key it is read from.\<close>

definition metric_sources :: "(string \<times> string) list" where
  "metric_sources =
     [(''market_cap'', ''marketCap''),
      (''enterprise_value'', ''enterpriseValue''),
      (''price'', ''currentPrice''),
      (''pe_ratio'', ''trailingPE''),
      (''forward_pe'', ''forwardPE''),
      (''peg_ratio'', ''pegRatio''),
      (''price_to_book'', ''priceToBook''),
      (''price_to_sales'', ''priceToSalesTrailing12Months''),
      (''ev_to_revenue'', ''enterpriseToRevenue''),
      (''ev_to_ebitda'', ''enterpriseToEbitda''),
      (''revenue_growth'', ''revenueGrowth''),
      (''profit_margin'', ''profitMargins''),
      (''roe'', ''returnOnEquity''),
      (''debt_to_equity'', ''debtToEquity''),
      (''current_ratio'', ''currentRatio'')]"

definition text_or :: "yf_stock \<Rightarrow> string \<Rightarrow> string \<Rightarrow> string" where
  "text_or ticker_obj key dflt = (case info_text ticker_obj key of None \<Rightarrow> dflt | Some s \<Rightarrow> s)"

definition extract_metrics :: "yf_stock \<Rightarrow> string \<Rightarrow> metrics" where
  "extract_metrics ticker_obj ticker_name =
     \<lparr> labels =
         [''ticker'' \<mapsto> ticker_name,
          ''company'' \<mapsto> text_or ticker_obj ''shortName'' ticker_name,
          ''sector'' \<mapsto> text_or ticker_obj ''sector'' ''Unknown'',
          ''industry'' \<mapsto> text_or ticker_obj ''industry'' ''Unknown''],
       figures =
         (\<lambda>k. case map_of metric_sources k of
                None \<Rightarrow> None
              | Some src \<Rightarrow> info ticker_obj src) \<rparr>"

text \<open>
  The attributes of a \<^verbatim>\<open>CompAnalysis\<close>. \<open>comp_data\<close> is the data frame
  \<^verbatim>\<open>pd.DataFrame(comp_metrics)\<close>, kept as the list of its rows; both data
  attributes are \<^verbatim>\<open>None\<close> until \<^verbatim>\<open>fetch_data\<close> has run.
\<close>

record CompAnalysis =
  target_ticker :: string
  comp_tickers :: "string list"
  target_data :: "metrics option"
  comp_data :: "metrics list option"

definition init_comp :: "string \<Rightarrow> string list \<Rightarrow> CompAnalysis" where
  "init_comp target comps =
     \<lparr> target_ticker = target, comp_tickers = comps, target_data = None, comp_data = None \<rparr>"

text \<open>
  \<^verbatim>\<open>fetch_data\<close>, over a provider \<open>yf\<close> that answers a ticker with its data or
  fails. A failure for the target ends the call; a peer that fails is skipped.
\<close>

definition fetch_data :: "(string \<Rightarrow> error + yf_stock) \<Rightarrow> CompAnalysis \<Rightarrow> error + CompAnalysis" where
  "fetch_data yf self =
     bind_err (yf (target_ticker self)) (\<lambda>target.
       let comp_metrics =
             concat (map (\<lambda>t. case yf t of Inl e \<Rightarrow> [] | Inr peer \<Rightarrow> [extract_metrics peer t])
                         (comp_tickers self))
       in Inr (self\<lparr> target_data := Some (extract_metrics target (target_ticker self)),
                     comp_data := Some comp_metrics \<rparr>))"

text \<open>
  \<^verbatim>\<open>self.comp_data[col]\<close>. A frame built from a list of dictionaries has their keys
  as its columns, and every dictionary of \<^verbatim>\<open>_extract_metrics\<close> has every key; a
  frame built from the empty list has no column at all, and asking it for one raises
  KeyError. A \<^verbatim>\<open>None\<close> in a column is a missing entry.
\<close>

definition frame_column :: "metrics list \<Rightarrow> string \<Rightarrow> error + fl list" where
  "frame_column rows col =
     (if rows = [] then Inl KeyError
      else Inr (map (\<lambda>r. case figures r col of None \<Rightarrow> NaN | Some v \<Rightarrow> Fin v) rows))"

definition multiple_cols :: "string list" where
  "multiple_cols =
     [''pe_ratio'', ''forward_pe'', ''peg_ratio'', ''price_to_book'', ''price_to_sales'',
      ''ev_to_revenue'', ''ev_to_ebitda'']"

text \<open>
  One row of the statistics table. An aggregate is \<open>None\<close> where the code writes
  \<^verbatim>\<open>None\<close>.
\<close>

record stat_row =
  multiple :: string
  mean :: "fl option"
  median :: "fl option"
  min_stat :: "fl option"
  max_stat :: "fl option"
  std :: "fl option"
  count :: nat

definition column_stats :: "string \<Rightarrow> fl list \<Rightarrow> stat_row" where
  "column_stats col column =
     (let values = dropna column in
      if length values = 0
      then \<lparr> multiple = col, mean = None, median = None, min_stat = None, max_stat = None,
             std = None, count = 0 \<rparr>
      else \<lparr> multiple = col,
             mean = Some (series_mean values),
             median = Some (series_median values),
             min_stat = Some (series_min values),
             max_stat = Some (series_max values),
             std = Some (series_std values),
             count = length values \<rparr>)"

fun stats_loop :: "metrics list \<Rightarrow> string list \<Rightarrow> error + stat_row list" where
  "stats_loop rows [] = Inr []"
| "stats_loop rows (col # cols) =
     bind_err (frame_column rows col) (\<lambda>column.
     bind_err (stats_loop rows cols) (\<lambda>rest. Inr (column_stats col column # rest)))"

text \<open>
  \<^verbatim>\<open>pd.DataFrame(stats)\<close>: a column in which some row holds a number becomes a
  float64 column, where a \<^verbatim>\<open>None\<close> is stored as NaN; a column of nothing but
  \<^verbatim>\<open>None\<close> keeps its entries.
\<close>

definition frame_cell :: "(stat_row \<Rightarrow> fl option) \<Rightarrow> stat_row list \<Rightarrow> stat_row \<Rightarrow> fl option" where
  "frame_cell col rows r =
     (if list_all (\<lambda>r'. col r' = None) rows then None
      else (case col r of None \<Rightarrow> Some NaN | Some x \<Rightarrow> Some x))"

definition stats_frame :: "stat_row list \<Rightarrow> stat_row list" where
  "stats_frame rows =
     map (\<lambda>r. \<lparr> multiple = multiple r,
                 mean = frame_cell mean rows r,
                 median = frame_cell median rows r,
                 min_stat = frame_cell min_stat rows r,
                 max_stat = frame_cell max_stat rows r,
                 std = frame_cell std rows r,
                 count = count r \<rparr>) rows"

definition calculate_multiples :: "CompAnalysis \<Rightarrow> error + stat_row list" where
  "calculate_multiples self =
     (case comp_data self of
        None \<Rightarrow> Inl ValueError
      | Some rows \<Rightarrow> bind_err (stats_loop rows multiple_cols) (\<lambda>stats. Inr (stats_frame stats)))"

text \<open>
  The statistic \<^verbatim>\<open>value_target\<close> is asked to use (its \<^verbatim>\<open>method\<close> argument:
  \<^verbatim>\<open>'mean'\<close>, \<^verbatim>\<open>'median'\<close>, \<^verbatim>\<open>'min'\<close> or \<^verbatim>\<open>'max'\<close>), and
  \<^verbatim>\<open>row[method]\<close>.
\<close>

datatype stat_method = UseMean | UseMedian | UseMin | UseMax

fun row_stat :: "stat_row \<Rightarrow> stat_method \<Rightarrow> fl option" where
  "row_stat row UseMean = mean row"
| "row_stat row UseMedian = median row"
| "row_stat row UseMin = min_stat row"
| "row_stat row UseMax = max_stat row"

text \<open>
  An entry of the \<^verbatim>\<open>'valuations'\<close> dictionary: \<open>ImpliedPrice\<close> holds
  \<^verbatim>\<open>implied_price\<close>, \<^verbatim>\<open>comp_multiple\<close> and \<^verbatim>\<open>current_price\<close>;
  \<open>ImpliedEV\<close> holds \<^verbatim>\<open>implied_ev\<close>, \<^verbatim>\<open>comp_multiple\<close> and
  \<^verbatim>\<open>current_ev\<close>.
\<close>

datatype valuation = ImpliedPrice fl fl "real option" | ImpliedEV fl fl "real option"

text \<open>
  The truth value Python gives a figure in \<^verbatim>\<open>if x\<close> (\<^verbatim>\<open>None\<close> and zero are
  false), and \<^verbatim>\<open>a / b\<close> on two figures: a TypeError when one of them is
  \<^verbatim>\<open>None\<close>, a ZeroDivisionError when the divisor is zero.
\<close>

definition truthy :: "real option \<Rightarrow> bool" where
  "truthy v = (case v of None \<Rightarrow> False | Some x \<Rightarrow> x \<noteq> 0)"

definition div_figures :: "real option \<Rightarrow> real option \<Rightarrow> error + real" where
  "div_figures a b =
     (case a of
        None \<Rightarrow> Inl TypeError
      | Some x \<Rightarrow>
          (case b of
             None \<Rightarrow> Inl TypeError
           | Some y \<Rightarrow> if y = 0 then Inl ZeroDivisionError else Inr (x / y)))"

text \<open>The body of the loop over the rows of the statistics table.\<close>

definition value_row ::
  "metrics \<Rightarrow> stat_method \<Rightarrow> (string \<rightharpoonup> valuation) \<Rightarrow> stat_row \<Rightarrow> error + (string \<rightharpoonup> valuation)" where
  "value_row target method vals row =
     (case row_stat row method of
        None \<Rightarrow> Inr vals
      | Some comp_multiple \<Rightarrow>
          if comp_multiple = NaN then Inr vals
          else if multiple row = ''pe_ratio'' then
            (if truthy (figures target ''pe_ratio'') then
               bind_err (div_figures (figures target ''price'') (figures target ''pe_ratio''))
                 (\<lambda>eps.
                    if eps \<noteq> 0
                    then Inr (vals(''PE'' \<mapsto>
                           ImpliedPrice (fl_mul comp_multiple (Fin eps)) comp_multiple
                             (figures target ''price'')))
                    else Inr vals)
             else Inr vals)
          else if multiple row = ''price_to_book'' then
            (if truthy (figures target ''price_to_book'') then
               bind_err (div_figures (figures target ''price'') (figures target ''price_to_book''))
                 (\<lambda>bvps.
                    if bvps \<noteq> 0
                    then Inr (vals(''P/B'' \<mapsto>
                           ImpliedPrice (fl_mul comp_multiple (Fin bvps)) comp_multiple
                             (figures target ''price'')))
                    else Inr vals)
             else Inr vals)
          else if multiple row = ''ev_to_ebitda'' then
            (if truthy (figures target ''ev_to_ebitda'') then
               bind_err (div_figures (figures target ''enterprise_value'')
                           (figures target ''ev_to_ebitda''))
                 (\<lambda>target_ebitda.
                    Inr (vals(''EV/EBITDA'' \<mapsto>
                      ImpliedEV (fl_mul comp_multiple (Fin target_ebitda)) comp_multiple
                        (figures target ''enterprise_value''))))
             else Inr vals)
          else Inr vals)"

fun value_rows ::
  "metrics \<Rightarrow> stat_method \<Rightarrow> (string \<rightharpoonup> valuation) \<Rightarrow> stat_row list \<Rightarrow> error + (string \<rightharpoonup> valuation)" where
  "value_rows target method vals [] = Inr vals"
| "value_rows target method vals (row # rows) =
     bind_err (value_row target method vals row) (\<lambda>vals'. value_rows target method vals' rows)"

text \<open>
  \<^verbatim>\<open>value_target\<close> returns the dictionary with the keys \<^verbatim>\<open>'method'\<close> and
  \<^verbatim>\<open>'valuations'\<close>, here a pair.
\<close>

definition value_target ::
  "CompAnalysis \<Rightarrow> stat_method \<Rightarrow> error + (stat_method \<times> (string \<rightharpoonup> valuation))" where
  "value_target self method =
     (case target_data self of
        None \<Rightarrow> Inl ValueError
      | Some target \<Rightarrow>
          (case comp_data self of
             None \<Rightarrow> Inl ValueError
           | Some rows \<Rightarrow>
               bind_err (calculate_multiples self) (\<lambda>stats.
               bind_err (value_rows target method Map.empty stats) (\<lambda>vals.
               Inr (method, vals)))))"

section \<open>The specification's formulas\<close>

text \<open>
  The formulas of the specification, written over the reals as its sections 4.1, 4.3 and
  4.4 word them. The theorems below compare the code with them.
\<close>

definition spec_median :: "real list \<Rightarrow> real" where
  "spec_median xs =
     (let s = sort xs; n = length xs in
      if odd n then s ! (n div 2) else (s ! (n div 2 - 1) + s ! (n div 2)) / 2)"


definition spec_clamp :: "real \<Rightarrow> real" where
  "spec_clamp x = max (- 0.10) (min 0.25 x)"


definition spec_project :: "real \<Rightarrow> real \<Rightarrow> nat \<Rightarrow> real list" where
  "spec_project baseFCF g horizon = map (\<lambda>t. baseFCF * (1 + g) ^ t) [1 ..< Suc horizon]"

definition spec_terminalValue :: "real \<Rightarrow> real \<Rightarrow> real \<Rightarrow> real" where
  "spec_terminalValue finalYearFCF g r = finalYearFCF * (1 + g) / (r - g)"

definition spec_presentValue :: "real \<Rightarrow> nat \<Rightarrow> real \<Rightarrow> real" where
  "spec_presentValue cf t r = cf / (1 + r) ^ t"

text \<open>
  Section 4.1: the values a statistic is computed over are the non-missing values of one
  multiple across all peer records; the mean, and the sample standard deviation.
\<close>

definition peer_values :: "metrics list \<Rightarrow> string \<Rightarrow> real list" where
  "peer_values rows col =
     concat (map (\<lambda>r. case figures r col of None \<Rightarrow> [] | Some v \<Rightarrow> [v]) rows)"

definition spec_mean :: "real list \<Rightarrow> real" where
  "spec_mean xs = sum_list xs / real (length xs)"

definition spec_sample_std :: "real list \<Rightarrow> real" where
  "spec_sample_std xs =
     sqrt (sum_list (map (\<lambda>x. (x - spec_mean xs) * (x - spec_mean xs)) xs)
           / real (length xs - 1))"

text \<open>An aggregate is unknown when it is \<^verbatim>\<open>None\<close> or NaN.\<close>

definition unknown :: "fl option \<Rightarrow> bool" where
  "unknown v = (v = None \<or> v = Some NaN)"


section \<open>Concrete inputs\<close>

text \<open>
  The end-to-end scenario of the specification's section 8: the most recent free cash
  flow is 100 and the one before it 1000/11 (the statement lists the most recent date
  first), so that the single period-over-period change is 10 percent; two forecast years,
  a discount rate of 10 percent, a terminal growth of 2.5 percent, cash 50, debt 20, 100
  shares and a price of 10.
\<close>

definition demo_stock :: yf_stock where
  "demo_stock =
     \<lparr> cashflow_dates = [730, 365],
       cashflow = [''Free Cash Flow'' \<mapsto> [100, 1000 / 11]],
       balance_sheet = [''Cash And Cash Equivalents'' \<mapsto> [50], ''Total Debt'' \<mapsto> [20]],
       info = [''sharesOutstanding'' \<mapsto> 100, ''currentPrice'' \<mapsto> 10],
       info_text = Map.empty \<rparr>"

definition demo_model :: DCFModel where
  "demo_model =
     \<lparr> self_ticker = ''DEMO'', self_forecast_years = 2, self_terminal_growth_rate = 0.025,
       self_wacc = 0.10, self_stock = demo_stock \<rparr>"

text \<open>
  A stock for which the provider delivers operating cash flow and capital expenditure
  (the same free cash flow as above) and nothing else, and the model that values it.
\<close>

definition bare_stock :: yf_stock where
  "bare_stock =
     \<lparr> cashflow_dates = [730, 365],
       cashflow = [''Operating Cash Flow'' \<mapsto> [130, 1300 / 11],
                   ''Capital Expenditure'' \<mapsto> [- 30, - 300 / 11]],
       balance_sheet = Map.empty, info = Map.empty, info_text = Map.empty \<rparr>"

definition bare_model :: DCFModel where
  "bare_model = demo_model\<lparr> self_stock := bare_stock \<rparr>"

text \<open>
  A provider for the comparable company analysis: the target \<^verbatim>\<open>TGT\<close> trades at 20
  times earnings and has no current price in its quote; every other ticker is a peer at
  25 times earnings with a price of 50.
\<close>

definition quote_stock :: "(string \<rightharpoonup> real) \<Rightarrow> yf_stock" where
  "quote_stock q =
     \<lparr> cashflow_dates = [], cashflow = Map.empty, balance_sheet = Map.empty, info = q,
       info_text = Map.empty \<rparr>"

definition demo_yf :: "string \<Rightarrow> error + yf_stock" where
  "demo_yf t =
     (if t = ''TGT'' then Inr (quote_stock [''trailingPE'' \<mapsto> 20])
      else Inr (quote_stock [''trailingPE'' \<mapsto> 25, ''currentPrice'' \<mapsto> 50]))"

text \<open>
  A priced target (price 50 at 20 times earnings, enterprise value 1000 at 10 times
  EBITDA) and three peers at 24, 25 and 26 times earnings that report nothing else.
\<close>

definition priced_target :: metrics where
  "priced_target =
     extract_metrics
       (quote_stock [''trailingPE'' \<mapsto> 20, ''currentPrice'' \<mapsto> 50,
                     ''enterpriseValue'' \<mapsto> 1000, ''enterpriseToEbitda'' \<mapsto> 10]) ''TGT''"

definition three_peers :: "metrics list" where
  "three_peers =
     [extract_metrics (quote_stock [''trailingPE'' \<mapsto> 24]) ''P1'',
      extract_metrics (quote_stock [''trailingPE'' \<mapsto> 25]) ''P2'',
      extract_metrics (quote_stock [''trailingPE'' \<mapsto> 26]) ''P3'']"

definition priced_analysis :: CompAnalysis where
  "priced_analysis =
     \<lparr> target_ticker = ''TGT'', comp_tickers = [''P1'', ''P2'', ''P3''],
       target_data = Some priced_target, comp_data = Some three_peers \<rparr>"

section \<open>Facts about the number model\<close>

lemma val_mk [simp]: "val (mk k x) = x"
  by (simp add: mk_def)

lemma is_np_mk [simp]: "is_np (mk k x) = k"
  by (simp add: mk_def)

lemma val_py_add [simp]: "val (py_add a b) = fl_add (val a) (val b)"
  by (simp add: py_add_def)

lemma val_py_sub [simp]: "val (py_sub a b) = fl_sub (val a) (val b)"
  by (simp add: py_sub_def)

lemma val_py_mul [simp]: "val (py_mul a b) = fl_mul (val a) (val b)"
  by (simp add: py_mul_def)

lemma fl_sub_Fin [simp]: "fl_sub (Fin x) (Fin y) = Fin (x - y)"
  by (simp add: fl_sub_def)

lemma py_truediv_nonzero:
  "val b = Fin y \<Longrightarrow> y \<noteq> 0 \<Longrightarrow>
   py_truediv a b = Inr (mk (is_np a \<or> is_np b) (fl_div (val a) (Fin y)))"
  by (simp add: py_truediv_def)

lemma bind_err_Inr [simp]: "bind_err (Inr v) f = f v"
  by (simp add: bind_err_def)

lemma bind_err_Inl [simp]: "bind_err (Inl e) f = Inl e"
  by (simp add: bind_err_def)

lemma discount_loop_finite:
  "1 + w \<noteq> 0 \<Longrightarrow> map val cfs = map Fin xs \<Longrightarrow>
   \<exists>pvs. discount_loop w t cfs = Inr pvs \<and>
         map val pvs = map Fin (map2 (\<lambda>x k. x / (1 + w) ^ k) xs [t ..< t + length xs])"
proof (induction cfs arbitrary: xs t)
  case Nil
  then show ?case by simp
next
  case (Cons cf cfs)
  then obtain x xs' where xs: "xs = x # xs'" and cf: "val cf = Fin x"
    and rest: "map val cfs = map Fin xs'"
    by (cases xs) auto
  from Cons.IH [OF Cons.prems(1) rest, of "Suc t"]
  obtain pvs where pvs: "discount_loop w (Suc t) cfs = Inr pvs"
    and vals: "map val pvs = map Fin (map2 (\<lambda>x k. x / (1 + w) ^ k) xs' [Suc t ..< Suc t + length xs'])"
    by blast
  have nz: "(1 + w) ^ t \<noteq> 0" using Cons.prems(1) by simp
  have d: "py_truediv cf (Py (Fin ((1 + w) ^ t))) =
           Inr (mk (is_np cf) (Fin (x / (1 + w) ^ t)))"
    using Cons.prems(1) cf by (simp add: py_truediv_def)
  have u: "[t ..< t + length xs] = t # [Suc t ..< Suc t + length xs']"
    using xs by (simp add: upt_rec)
  show ?case
    unfolding u
    using d pvs vals xs by simp
qed

lemma foldl_py_add_finite:
  "val acc = Fin a \<Longrightarrow> map val pvs = map Fin ys \<Longrightarrow>
   val (foldl py_add acc pvs) = Fin (a + sum_list ys)"
proof (induction pvs arbitrary: acc a ys)
  case Nil
  then show ?case by simp
next
  case (Cons p pvs)
  then obtain y ys' where ys: "ys = y # ys'" and p: "val p = Fin y"
    and rest: "map val pvs = map Fin ys'"
    by (cases ys) auto
  have "val (py_add acc p) = Fin (a + y)" using Cons.prems(1) p by simp
  from Cons.IH [OF this rest] ys show ?case by (simp add: add.assoc)
qed

lemma py_sum_finite:
  "map val pvs = map Fin ys \<Longrightarrow> val (py_sum pvs) = Fin (sum_list ys)"
  using foldl_py_add_finite [of "Py (Fin 0)" 0 pvs ys] by (simp add: py_sum_def)

section \<open>Facts about the cash flow projection and the discounting\<close>

lemma length_project_loop: "length (project_loop n c g) = n"
  by (induction n arbitrary: c) (simp_all add: Let_def)

lemma project_loop_first:
  "0 < n \<Longrightarrow> project_loop n c g ! 0 = py_mul c (py_add (Py (Fin 1)) g)"
  by (cases n) (simp_all add: Let_def)

lemma project_loop_step:
  "Suc i < n \<Longrightarrow>
   project_loop n c g ! Suc i = py_mul (project_loop n c g ! i) (py_add (Py (Fin 1)) g)"
proof (induction n arbitrary: c i)
  case 0
  then show ?case by simp
next
  case (Suc n)
  show ?case
  proof (cases i)
    case 0
    with Suc.prems have "0 < n" by simp
    with 0 show ?thesis by (simp add: Let_def project_loop_first)
  next
    case (Suc j)
    with Suc.prems have "Suc j < n" by simp
    with Suc.IH Suc show ?thesis by (simp add: Let_def)
  qed
qed

lemma project_loop_closed:
  "val c = Fin b \<Longrightarrow> val g = Fin r \<Longrightarrow> i < n \<Longrightarrow>
   val (project_loop n c g ! i) = Fin (b * (1 + r) ^ Suc i)"
proof (induction n arbitrary: c b i)
  case 0
  then show ?case by simp
next
  case (Suc n)
  let ?nxt = "py_mul c (py_add (Py (Fin 1)) g)"
  have nxt: "val ?nxt = Fin (b * (1 + r))"
    using Suc.prems(1,2) by (simp add: py_mul_def py_add_def)
  show ?case
  proof (cases i)
    case 0
    with nxt show ?thesis by (simp add: Let_def)
  next
    case (Suc j)
    with Suc.prems have "j < n" by simp
    from Suc.IH [OF nxt Suc.prems(2) this] Suc show ?thesis
      by (simp add: Let_def mult.assoc)
  qed
qed

lemma project_fcf_closed:
  assumes "val base = Fin b" and "val g = Fin r"
  shows "map val (project_fcf self base g) = map Fin (spec_project b r (nat (self_forecast_years self)))"
proof (rule nth_equalityI)
  show "length (map val (project_fcf self base g)) =
        length (map Fin (spec_project b r (nat (self_forecast_years self))))"
    by (simp add: project_fcf_def length_project_loop spec_project_def)
next
  fix i assume "i < length (map val (project_fcf self base g))"
  then have i: "i < nat (self_forecast_years self)"
    by (simp add: project_fcf_def length_project_loop)
  then show "map val (project_fcf self base g) ! i =
             map Fin (spec_project b r (nat (self_forecast_years self))) ! i"
    using project_loop_closed [OF assms i]
    by (simp add: project_fcf_def length_project_loop spec_project_def del: upt_Suc)
qed

lemma balance_item_finite: "\<exists>c. val (balance_item s l) = Fin c"
  by (simp add: balance_item_def split: option.splits list.splits)

lemma info_get0_Py: "\<exists>c. info_get0 s k = Py (Fin c)"
  by (simp add: info_get0_def split: option.splits)

lemma last_item_nonempty: "xs \<noteq> [] \<Longrightarrow> last_item xs = Inr (last xs)"
  by (simp add: last_item_def)

lemma set_sort_index: "set (sort_index dates row) \<subseteq> set row"
proof -
  have "set (sort_index dates row) = snd ` set (zip dates row)"
    by (simp add: sort_index_def)
  also have "\<dots> \<subseteq> set row"
    by (auto dest: set_zip_rightD)
  finally show ?thesis .
qed

lemma all_finite_list: "list_all is_fin xs \<Longrightarrow> \<exists>h. xs = map Fin h"
proof (induction xs)
  case Nil
  then show ?case by simp
next
  case (Cons x xs)
  then obtain h r where "xs = map Fin h" "x = Fin r"
    by (cases x) auto
  then have "x # xs = map Fin (r # h)" by simp
  then show ?case by (rule exI [of _ "r # h"])
qed

lemma map2_fl_add_Fin:
  "map2 fl_add (map Fin xs) (map Fin ys) = map Fin (map2 (+) xs ys)"
proof (induction xs arbitrary: ys)
  case Nil
  then show ?case by simp
next
  case (Cons x xs)
  then show ?case by (cases ys) simp_all
qed

lemma historical_fcf_numbers:
  assumes "get_historical_fcf self = Inr hist"
  shows "\<exists>h. hist = map Fin h"
proof -
  let ?d = "cashflow_dates (self_stock self)"
  have fin: "list_all is_fin (sort_index ?d ys)" if "list_all is_fin ys" for ys
    using that set_sort_index [of ?d ys] by (auto simp: list_all_iff)
  have a: "\<And>xs. list_all is_fin (map Fin xs)"
    by (simp add: list_all_iff)
  have b: "\<And>xs ys. list_all is_fin (map2 fl_add (map Fin xs) (map Fin ys))"
    by (simp add: map2_fl_add_Fin list_all_iff)
  from assms have "list_all is_fin hist"
    using fin [OF a] fin [OF b]
    by (auto simp: get_historical_fcf_def Let_def split: option.splits)
  then show ?thesis by (rule all_finite_list)
qed

lemma pipeline_finite:
  assumes fetch: "get_historical_fcf self = Inr (map Fin history)"
    and hist: "history \<noteq> []"
    and gr: "val (calculate_fcf_growth_rate (map Fin history)) = Fin gr"
    and hor: "1 \<le> self_forecast_years self"
    and wg: "self_wacc self \<noteq> self_terminal_growth_rate self"
    and w1: "self_wacc self \<noteq> - 1"
  shows "\<exists>res c d sh p.
      calculate_enterprise_value self = Inr res
    \<and> val (base_fcf res) = Fin (last history)
    \<and> val (fcf_growth_rate res) = Fin gr
    \<and> map val (projected_fcf res) =
        map Fin (spec_project (last history) gr (nat (self_forecast_years self)))
    \<and> val (terminal_value res) =
        Fin (spec_terminalValue
              (last (spec_project (last history) gr (nat (self_forecast_years self))))
              (self_terminal_growth_rate self) (self_wacc self))
    \<and> val (pv_terminal_value res) =
        Fin (spec_presentValue
              (spec_terminalValue
                (last (spec_project (last history) gr (nat (self_forecast_years self))))
                (self_terminal_growth_rate self) (self_wacc self))
              (nat (self_forecast_years self)) (self_wacc self))
    \<and> val (enterprise_value res) =
        Fin (sum_list (map2 (\<lambda>x t. spec_presentValue x t (self_wacc self))
                (spec_project (last history) gr (nat (self_forecast_years self)))
                [1 ..< Suc (nat (self_forecast_years self))])
           + spec_presentValue
              (spec_terminalValue
                (last (spec_project (last history) gr (nat (self_forecast_years self))))
                (self_terminal_growth_rate self) (self_wacc self))
              (nat (self_forecast_years self)) (self_wacc self))
    \<and> cash res = balance_item (self_stock self) ''Cash And Cash Equivalents''
    \<and> debt res = balance_item (self_stock self) ''Total Debt''
    \<and> shares_outstanding res = info_get0 (self_stock self) ''sharesOutstanding''
    \<and> current_price res = info_get0 (self_stock self) ''currentPrice''
    \<and> val (cash res) = Fin c \<and> val (debt res) = Fin d
    \<and> val (shares_outstanding res) = Fin sh \<and> val (current_price res) = Fin p
    \<and> (\<exists>ev. val (enterprise_value res) = Fin ev \<and> val (equity_value res) = Fin (ev + c - d))
    \<and> (\<exists>eq. val (equity_value res) = Fin eq \<and>
           val (intrinsic_value_per_share res) = Fin (if 0 < sh then eq / sh else 0))
    \<and> (\<exists>ips. val (intrinsic_value_per_share res) = Fin ips \<and>
           val (upside_downside_pct res) = Fin (if 0 < p then (ips - p) / p * 100 else 0))"
proof -
  let ?s = "self_stock self"
  let ?b = "last history"
  let ?n = "nat (self_forecast_years self)"
  let ?r = "self_wacc self"
  let ?g = "self_terminal_growth_rate self"
  let ?growth = "calculate_fcf_growth_rate (map Fin history)"
  let ?projected = "project_fcf self (Np (Fin ?b)) ?growth"
  let ?csh = "balance_item ?s ''Cash And Cash Equivalents''"
  let ?dbt = "balance_item ?s ''Total Debt''"
  let ?shares = "info_get0 ?s ''sharesOutstanding''"
  let ?price = "info_get0 ?s ''currentPrice''"
  define xs where "xs = spec_project ?b gr ?n"
  define tvv where "tvv = spec_terminalValue (last xs) ?g ?r"
  have npos: "0 < ?n" using hor by simp
  have w1': "1 + ?r \<noteq> 0" using w1 by linarith
  have h1: "last_item (map Fin history) = Inr (Fin ?b)"
    using hist by (simp add: last_item_def last_map)
  have pv: "map val ?projected = map Fin xs"
    unfolding xs_def by (rule project_fcf_closed) (simp_all add: gr)
  have len: "length ?projected = ?n" "length xs = ?n"
    by (simp_all add: project_fcf_def length_project_loop xs_def spec_project_def)
  have pne: "?projected \<noteq> []" "xs \<noteq> []" using len npos by auto
  have h2: "last_item ?projected = Inr (last ?projected)"
    using pne by (simp add: last_item_def)
  have lastv: "val (last ?projected) = Fin (last xs)"
  proof -
    have "val (last ?projected) = last (map val ?projected)" using pne by (simp add: last_map)
    also have "\<dots> = Fin (last xs)" using pv pne by (simp add: last_map)
    finally show ?thesis .
  qed
  define tv where "tv = mk (is_np (last ?projected)) (Fin tvv)"
  have h3: "calculate_terminal_value self (last ?projected) = Inr tv"
    using wg lastv
    by (simp add: calculate_terminal_value_def py_truediv_def tv_def tvv_def
        spec_terminalValue_def py_mul_def mk_def)
  from discount_loop_finite [of ?r ?projected xs 1] w1' pv
  obtain pvs where h4: "discount_cash_flows self ?projected = Inr pvs"
    and pvs: "map val pvs = map Fin (map2 (\<lambda>x k. x / (1 + ?r) ^ k) xs [1 ..< 1 + length xs])"
    by (auto simp: discount_cash_flows_def)
  define pvtv where "pvtv = mk (is_np tv) (Fin (spec_presentValue tvv ?n ?r))"
  have h5: "py_truediv tv (Py (Fin ((1 + ?r) ^ ?n))) = Inr pvtv"
    using w1' by (simp add: py_truediv_def pvtv_def tv_def spec_presentValue_def)
  define evv where
    "evv = sum_list (map2 (\<lambda>x t. spec_presentValue x t ?r) xs [1 ..< Suc ?n])
           + spec_presentValue tvv ?n ?r"
  define ev where "ev = py_add (py_sum pvs) pvtv"
  have evval: "val ev = Fin evv"
    using py_sum_finite [OF pvs]
    by (simp add: ev_def evv_def pvtv_def len spec_presentValue_def)
  obtain c where c: "val ?csh = Fin c"
    using balance_item_finite by blast
  obtain d where d: "val ?dbt = Fin d"
    using balance_item_finite by blast
  obtain sh where sh: "?shares = Py (Fin sh)"
    using info_get0_Py by blast
  obtain p where p: "?price = Py (Fin p)"
    using info_get0_Py by blast
  define equity where "equity = py_sub (py_add ev ?csh) ?dbt"
  have eqv: "val equity = Fin (evv + c - d)"
    by (simp add: equity_def evval c d)
  define ips where "ips = (if 0 < sh then (evv + c - d) / sh else 0)"
  define per_share where
    "per_share = (if 0 < sh then mk (is_np equity) (Fin ips) else Py (Fin 0))"
  have h6: "(if py_gt ?shares (Py (Fin 0)) then py_truediv equity ?shares
             else Inr (Py (Fin 0))) = Inr per_share"
    by (simp add: sh py_gt_def py_truediv_def per_share_def eqv ips_def)
  have psv: "val per_share = Fin ips"
    by (simp add: per_share_def ips_def)
  define upside where
    "upside = (if 0 < p then py_mul (mk (is_np per_share) (Fin ((ips - p) / p))) (Py (Fin 100))
               else Py (Fin 0))"
  have h7: "(if py_gt ?price (Py (Fin 0))
             then bind_err (py_truediv (py_sub per_share ?price) ?price)
                    (\<lambda>q. Inr (py_mul q (Py (Fin 100))))
             else Inr (Py (Fin 0))) = Inr upside"
    by (simp add: p py_gt_def py_truediv_def upside_def psv py_sub_def)
  have upv: "val upside = Fin (if 0 < p then (ips - p) / p * 100 else 0)"
    by (simp add: upside_def)
  define res where
    "res = \<lparr> ticker = self_ticker self, base_fcf = Np (Fin ?b), fcf_growth_rate = ?growth,
             projected_fcf = ?projected, terminal_value = tv, pv_terminal_value = pvtv,
             enterprise_value = ev, cash = ?csh, debt = ?dbt, equity_value = equity,
             shares_outstanding = ?shares, intrinsic_value_per_share = per_share,
             current_price = ?price, upside_downside_pct = upside, wacc = ?r,
             terminal_growth_rate = ?g \<rparr>"
  have run: "calculate_enterprise_value self = Inr res"
    unfolding calculate_enterprise_value_def Let_def
    by (simp only: fetch h1 bind_err_Inr h2 h3 h4 h5 h6 [unfolded equity_def ev_def]
        h7 res_def equity_def ev_def)
  have f1: "val (base_fcf res) = Fin ?b" by (simp add: res_def)
  have f2: "val (fcf_growth_rate res) = Fin gr" by (simp add: res_def gr)
  have f3: "map val (projected_fcf res) = map Fin xs" by (simp add: res_def pv)
  have f4: "val (terminal_value res) = Fin tvv" by (simp add: res_def tv_def)
  have f5: "val (pv_terminal_value res) = Fin (spec_presentValue tvv ?n ?r)"
    by (simp add: res_def pvtv_def)
  have f6: "val (enterprise_value res) = Fin evv" by (simp add: res_def evval)
  have f7: "cash res = ?csh" "debt res = ?dbt" "shares_outstanding res = ?shares"
    "current_price res = ?price"
    by (simp_all add: res_def)
  have f8: "val (cash res) = Fin c" "val (debt res) = Fin d"
    "val (shares_outstanding res) = Fin sh" "val (current_price res) = Fin p"
    by (simp_all add: res_def c d sh p)
  have f9: "val (equity_value res) = Fin (evv + c - d)" by (simp add: res_def eqv)
  have f10: "val (intrinsic_value_per_share res) = Fin ips" by (simp add: res_def psv)
  have f11: "val (upside_downside_pct res) = Fin (if 0 < p then (ips - p) / p * 100 else 0)"
    by (simp add: res_def upv)
  show ?thesis
    apply (rule exI [of _ res], rule exI [of _ c], rule exI [of _ d], rule exI [of _ sh],
        rule exI [of _ p])
    apply (intro conjI)
    apply (rule run)
    apply (rule f1)
    apply (rule f2)
    apply (rule f3 [unfolded xs_def])
    apply (rule f4 [unfolded tvv_def xs_def])
    apply (rule f5 [unfolded tvv_def xs_def])
    apply (rule f6 [unfolded evv_def tvv_def xs_def])
    apply (rule f7)+
    apply (rule f8)+
    apply (rule exI [of _ evv], simp add: f6 f9)
    apply (rule exI [of _ "evv + c - d"], simp add: f9 f10 ips_def)
    apply (rule exI [of _ ips], simp add: f10 f11)
    done
qed

section \<open>Facts about the growth rate\<close>

lemma fl_le_Fin [simp]: "fl_le (Fin x) (Fin y) = (x \<le> y)"
  by (auto simp: fl_le_def)

lemma fl_insort_Fin: "fl_insort (Fin x) (map Fin ys) = map Fin (insort x ys)"
  by (induction ys) simp_all

lemma fl_sort_Fin: "fl_sort (map Fin xs) = map Fin (sort xs)"
  by (induction xs) (simp_all add: fl_insort_Fin)


lemma series_median_Fin:
  "xs \<noteq> [] \<Longrightarrow> series_median (map Fin xs) = Fin (spec_median xs)"
proof -
  assume ne: "xs \<noteq> []"
  let ?n = "length xs"
  have pos: "0 < ?n" using ne by simp
  have a: "?n div 2 < length (sort xs)" using pos by simp
  have b: "?n div 2 - 1 < length (sort xs)" using pos by (simp add: less_imp_diff_less)
  show ?thesis
    using pos a b
    by (simp add: series_median_def spec_median_def fl_sort_Fin Let_def)
qed






lemma spec_clamp_range: "- 0.10 \<le> spec_clamp x \<and> spec_clamp x \<le> 0.25"
  by (simp add: spec_clamp_def)

section \<open>Facts about the fields of a DCF result\<close>

lemma result_fields:
  assumes "calculate_enterprise_value self = Inr res"
  shows "cash res = balance_item (self_stock self) ''Cash And Cash Equivalents''"
    and "debt res = balance_item (self_stock self) ''Total Debt''"
    and "shares_outstanding res = info_get0 (self_stock self) ''sharesOutstanding''"
    and "current_price res = info_get0 (self_stock self) ''currentPrice''"
    and "\<not> py_gt (shares_outstanding res) (Py (Fin 0)) \<longrightarrow> intrinsic_value_per_share res = Py (Fin 0)"
    and "\<not> py_gt (current_price res) (Py (Fin 0)) \<longrightarrow> upside_downside_pct res = Py (Fin 0)"
    and "equity_value res = py_sub (py_add (enterprise_value res) (cash res)) (debt res)"
  using assms
  by (auto simp: calculate_enterprise_value_def Let_def bind_err_def split: sum.splits if_splits)

section \<open>Facts about the peer statistics\<close>


lemma stats_loop_nonempty:
  "rows \<noteq> [] \<Longrightarrow>
   stats_loop rows cols =
     Inr (map (\<lambda>col. column_stats col
                 (map (\<lambda>r. case figures r col of None \<Rightarrow> NaN | Some v \<Rightarrow> Fin v) rows)) cols)"
  by (induction cols) (simp_all add: frame_column_def)

lemma dropna_column:
  "dropna (map (\<lambda>r. case figures r col of None \<Rightarrow> NaN | Some v \<Rightarrow> Fin v) rows) =
   map Fin (peer_values rows col)"
  by (induction rows) (simp_all add: dropna_def peer_values_def split: option.splits)

lemma foldl_fl_add_Fin: "foldl fl_add (Fin a) (map Fin xs) = Fin (a + sum_list xs)"
  by (induction xs arbitrary: a) (simp_all add: add.assoc)

lemma fl_sum_Fin: "fl_sum (map Fin xs) = Fin (sum_list xs)"
  by (simp add: fl_sum_def foldl_fl_add_Fin)

lemma series_mean_Fin: "xs \<noteq> [] \<Longrightarrow> series_mean (map Fin xs) = Fin (spec_mean xs)"
  by (simp add: series_mean_def fl_sum_Fin spec_mean_def)

lemma hd_sorted_Min: "sorted ys \<Longrightarrow> ys \<noteq> [] \<Longrightarrow> hd ys = Min (set ys)"
  by (cases ys) (auto intro!: Min_eqI [symmetric])

lemma last_sorted_Max: "sorted ys \<Longrightarrow> ys \<noteq> [] \<Longrightarrow> last ys = Max (set ys)"
proof (induction ys)
  case Nil
  then show ?case by simp
next
  case (Cons y ys)
  show ?case
  proof (cases ys)
    case Nil
    then show ?thesis by simp
  next
    case (Cons z zs)
    with Cons.prems Cons.IH have "last ys = Max (set ys)" by simp
    moreover have "y \<le> Max (set ys)"
      using Cons.prems \<open>ys = z # zs\<close> by (auto intro: Max_ge_iff [THEN iffD2])
    ultimately show ?thesis using \<open>ys = z # zs\<close> by (simp add: max_def)
  qed
qed

lemma sort_nonempty: "xs \<noteq> [] \<Longrightarrow> sort xs \<noteq> []"
  by (cases xs) auto

lemma series_min_Fin: "xs \<noteq> [] \<Longrightarrow> series_min (map Fin xs) = Fin (Min (set xs))"
  using hd_sorted_Min [of "sort xs"]
  by (simp add: series_min_def fl_sort_Fin hd_map sort_nonempty)

lemma series_max_Fin: "xs \<noteq> [] \<Longrightarrow> series_max (map Fin xs) = Fin (Max (set xs))"
  using last_sorted_Max [of "sort xs"]
  by (simp add: series_max_def fl_sort_Fin last_map sort_nonempty)

lemma series_std_Fin:
  assumes "2 \<le> length xs"
  shows "series_std (map Fin xs) = Fin (spec_sample_std xs)"
proof -
  have ne: "xs \<noteq> []" using assms by auto
  let ?m = "spec_mean xs"
  have sq: "map (\<lambda>x. fl_mul (fl_sub x (Fin ?m)) (fl_sub x (Fin ?m))) (map Fin xs) =
            map Fin (map (\<lambda>x. (x - ?m) * (x - ?m)) xs)"
    by simp
  have nn: "0 \<le> sum_list (map (\<lambda>x. (x - ?m) * (x - ?m)) xs) / real (length xs - 1)"
    by (intro divide_nonneg_nonneg sum_list_nonneg) auto
  have d: "real (length xs - 1) \<noteq> 0" using assms by simp
  show ?thesis
    using assms nn d
    by (simp add: series_std_def series_mean_Fin [OF ne] Let_def sq fl_sum_Fin
        spec_sample_std_def del: map_map)
qed

lemma series_std_single: "series_std [x] = NaN"
  by (simp add: series_std_def)

lemma column_stats_none:
  "peer_values rows col = [] \<Longrightarrow>
   column_stats col (map (\<lambda>r. case figures r col of None \<Rightarrow> NaN | Some v \<Rightarrow> Fin v) rows) =
     \<lparr> multiple = col, mean = None, median = None, min_stat = None, max_stat = None,
       std = None, count = 0 \<rparr>"
  by (simp add: column_stats_def dropna_column)

lemma column_stats_some:
  assumes "peer_values rows col \<noteq> []"
  shows "column_stats col (map (\<lambda>r. case figures r col of None \<Rightarrow> NaN | Some v \<Rightarrow> Fin v) rows) =
     \<lparr> multiple = col,
       mean = Some (Fin (spec_mean (peer_values rows col))),
       median = Some (Fin (spec_median (peer_values rows col))),
       min_stat = Some (Fin (Min (set (peer_values rows col)))),
       max_stat = Some (Fin (Max (set (peer_values rows col)))),
       std = Some (if length (peer_values rows col) = 1 then NaN
                   else Fin (spec_sample_std (peer_values rows col))),
       count = length (peer_values rows col) \<rparr>"
proof -
  let ?vs = "peer_values rows col"
  have len: "length ?vs = 1 \<or> 2 \<le> length ?vs"
    using assms by (cases ?vs) (auto simp: Suc_le_eq)
  have sd: "series_std (map Fin ?vs) = (if length ?vs = 1 then NaN else Fin (spec_sample_std ?vs))"
    using len series_std_Fin [of ?vs] by (auto simp: series_std_def)
  show ?thesis
    using assms
    by (simp add: column_stats_def dropna_column Let_def series_mean_Fin series_median_Fin
        series_min_Fin series_max_Fin sd)
qed

lemma calculate_multiples_nonempty:
  assumes "comp_data self = Some rows" and "rows \<noteq> []"
  shows "calculate_multiples self =
     Inr (stats_frame (map (\<lambda>col. column_stats col
            (map (\<lambda>r. case figures r col of None \<Rightarrow> NaN | Some v \<Rightarrow> Fin v) rows)) multiple_cols))"
  using assms by (simp add: calculate_multiples_def stats_loop_nonempty)

lemma frame_cell_Some:
  "r \<in> set rows \<Longrightarrow> f r = Some x \<Longrightarrow> frame_cell f rows r = Some x"
  by (auto simp: frame_cell_def list_all_iff)

lemma frame_cell_None: "f r = None \<Longrightarrow> unknown (frame_cell f rows r)"
  by (simp add: frame_cell_def unknown_def)

lemma stats_frame_row:
  assumes "row \<in> set (stats_frame raw)"
  shows "\<exists>r \<in> set raw. multiple row = multiple r \<and> count row = count r
      \<and> mean row = frame_cell mean raw r \<and> median row = frame_cell median raw r
      \<and> min_stat row = frame_cell min_stat raw r \<and> max_stat row = frame_cell max_stat raw r
      \<and> std row = frame_cell std raw r"
  using assms by (auto simp: stats_frame_def)

lemma peer_row_facts:
  assumes cd: "comp_data self = Some rows" and ne: "rows \<noteq> []"
  shows "\<exists>stats. calculate_multiples self = Inr stats
     \<and> map multiple stats = multiple_cols
     \<and> (\<forall>row \<in> set stats.
          count row = length (peer_values rows (multiple row))
        \<and> (peer_values rows (multiple row) = [] \<longrightarrow>
             unknown (mean row) \<and> unknown (median row) \<and> unknown (min_stat row)
           \<and> unknown (max_stat row) \<and> unknown (std row))
        \<and> (peer_values rows (multiple row) \<noteq> [] \<longrightarrow>
             mean row = Some (Fin (spec_mean (peer_values rows (multiple row))))
           \<and> median row = Some (Fin (spec_median (peer_values rows (multiple row))))
           \<and> min_stat row = Some (Fin (Min (set (peer_values rows (multiple row)))))
           \<and> max_stat row = Some (Fin (Max (set (peer_values rows (multiple row)))))
           \<and> std row = Some (if length (peer_values rows (multiple row)) = 1 then NaN
                              else Fin (spec_sample_std (peer_values rows (multiple row))))))"
proof -
  let ?column = "\<lambda>col. map (\<lambda>r. case figures r col of None \<Rightarrow> NaN | Some v \<Rightarrow> Fin v) rows"
  let ?raw = "map (\<lambda>col. column_stats col (?column col)) multiple_cols"
  have run: "calculate_multiples self = Inr (stats_frame ?raw)"
    using calculate_multiples_nonempty [OF cd ne] .
  have names: "map multiple (stats_frame ?raw) = multiple_cols"
  proof -
    have "\<And>col. multiple (column_stats col (?column col)) = col"
      by (simp add: column_stats_def Let_def)
    then show ?thesis by (simp add: stats_frame_def comp_def)
  qed
  have rows: "\<forall>row \<in> set (stats_frame ?raw).
          count row = length (peer_values rows (multiple row))
        \<and> (peer_values rows (multiple row) = [] \<longrightarrow>
             unknown (mean row) \<and> unknown (median row) \<and> unknown (min_stat row)
           \<and> unknown (max_stat row) \<and> unknown (std row))
        \<and> (peer_values rows (multiple row) \<noteq> [] \<longrightarrow>
             mean row = Some (Fin (spec_mean (peer_values rows (multiple row))))
           \<and> median row = Some (Fin (spec_median (peer_values rows (multiple row))))
           \<and> min_stat row = Some (Fin (Min (set (peer_values rows (multiple row)))))
           \<and> max_stat row = Some (Fin (Max (set (peer_values rows (multiple row)))))
           \<and> std row = Some (if length (peer_values rows (multiple row)) = 1 then NaN
                              else Fin (spec_sample_std (peer_values rows (multiple row)))))"
  proof
    fix row assume "row \<in> set (stats_frame ?raw)"
    from stats_frame_row [OF this] obtain r where r: "r \<in> set ?raw"
      and eqs: "multiple row = multiple r" "count row = count r"
        "mean row = frame_cell mean ?raw r" "median row = frame_cell median ?raw r"
        "min_stat row = frame_cell min_stat ?raw r" "max_stat row = frame_cell max_stat ?raw r"
        "std row = frame_cell std ?raw r"
      by blast
    from r obtain col where col: "r = column_stats col (?column col)" by auto
    let ?vs = "peer_values rows col"
    have m: "multiple r = col" by (simp add: col column_stats_def Let_def)
    show "count row = length (peer_values rows (multiple row))
        \<and> (peer_values rows (multiple row) = [] \<longrightarrow>
             unknown (mean row) \<and> unknown (median row) \<and> unknown (min_stat row)
           \<and> unknown (max_stat row) \<and> unknown (std row))
        \<and> (peer_values rows (multiple row) \<noteq> [] \<longrightarrow>
             mean row = Some (Fin (spec_mean (peer_values rows (multiple row))))
           \<and> median row = Some (Fin (spec_median (peer_values rows (multiple row))))
           \<and> min_stat row = Some (Fin (Min (set (peer_values rows (multiple row)))))
           \<and> max_stat row = Some (Fin (Max (set (peer_values rows (multiple row)))))
           \<and> std row = Some (if length (peer_values rows (multiple row)) = 1 then NaN
                              else Fin (spec_sample_std (peer_values rows (multiple row)))))"
    proof (cases "?vs = []")
      case True
      from column_stats_none [OF True] col
      have "mean r = None" "median r = None" "min_stat r = None" "max_stat r = None"
        "std r = None" "count r = 0"
        by simp_all
      with True eqs m show ?thesis by (simp add: frame_cell_None)
    next
      case False
      from column_stats_some [OF False] col
      have "mean r = Some (Fin (spec_mean ?vs))" "median r = Some (Fin (spec_median ?vs))"
        "min_stat r = Some (Fin (Min (set ?vs)))" "max_stat r = Some (Fin (Max (set ?vs)))"
        "std r = Some (if length ?vs = 1 then NaN else Fin (spec_sample_std ?vs))"
        "count r = length ?vs"
        by simp_all
      with False eqs m r show ?thesis by (simp add: frame_cell_Some)
    qed
  qed
  from run names rows show ?thesis by blast
qed

section \<open>The errors of the comparable company valuation\<close>







section \<open>More facts used by the claims\<close>



lemma distinct_metric_keys: "distinct (map fst metric_sources)"
  by (simp add: metric_sources_def)

lemma extract_metrics_figure:
  "(k, src) \<in> set metric_sources \<Longrightarrow> figures (extract_metrics stock name) k = info stock src"
  using map_of_is_SomeI [OF distinct_metric_keys]
  by (simp add: extract_metrics_def)


lemma demo_growth: "calculate_fcf_growth_rate (map Fin [1000 / 11, 100]) = Np (Fin 0.10)"
  by (simp add: calculate_fcf_growth_rate_def dropna_def series_median_def py_min_def
      py_max_def)

lemma bare_history: "get_historical_fcf bare_model = Inr (map Fin [1000 / 11, 100])"
  by (simp add: bare_model_def bare_stock_def get_historical_fcf_def sort_index_def)

lemma peer_values_nonempty_rows: "peer_values rows col \<noteq> [] \<Longrightarrow> rows \<noteq> []"
  by (auto simp: peer_values_def)

lemma demo_peer_values:
  "peer_values [extract_metrics (quote_stock [''trailingPE'' \<mapsto> 25]) ''A'',
                extract_metrics (quote_stock Map.empty) ''B''] ''pe_ratio'' = [25]"
  by (simp add: peer_values_def extract_metrics_def metric_sources_def quote_stock_def)

lemma value_row_effect:
  assumes "value_row target how vals row = Inr vals'"
  shows "(\<forall>k. k \<noteq> ''PE'' \<and> k \<noteq> ''P/B'' \<and> k \<noteq> ''EV/EBITDA'' \<longrightarrow> vals' k = vals k)
    \<and> (vals' ''PE'' \<noteq> vals ''PE'' \<longrightarrow>
          multiple row = ''pe_ratio'' \<and> \<not> unknown (row_stat row how)
        \<and> truthy (figures target ''pe_ratio'') \<and> truthy (figures target ''price''))
    \<and> (vals' ''P/B'' \<noteq> vals ''P/B'' \<longrightarrow>
          multiple row = ''price_to_book'' \<and> \<not> unknown (row_stat row how)
        \<and> truthy (figures target ''price_to_book'') \<and> truthy (figures target ''price''))
    \<and> (vals' ''EV/EBITDA'' \<noteq> vals ''EV/EBITDA'' \<longrightarrow>
          multiple row = ''ev_to_ebitda'' \<and> \<not> unknown (row_stat row how)
        \<and> truthy (figures target ''ev_to_ebitda'')
        \<and> figures target ''enterprise_value'' \<noteq> None)"
  using assms
  by (auto simp: value_row_def bind_err_def unknown_def truthy_def div_figures_def
      split: option.splits sum.splits if_splits)

lemma calculate_multiples_no_rows:
  "comp_data self = Some [] \<Longrightarrow> calculate_multiples self = Inl KeyError"
  by (simp add: calculate_multiples_def multiple_cols_def frame_column_def)

lemma value_rows_split:
  assumes "value_rows target how vals (row # rows) = Inr vals'"
  obtains mid where "value_row target how vals row = Inr mid"
    and "value_rows target how mid rows = Inr vals'"
  using assms by (cases "value_row target how vals row") simp_all

lemma value_rows_other:
  assumes "value_rows target how vals rows = Inr vals'"
    and "k \<noteq> ''PE''" and "k \<noteq> ''P/B''" and "k \<noteq> ''EV/EBITDA''"
  shows "vals' k = vals k"
  using assms(1)
proof (induction rows arbitrary: vals)
  case Nil
  then show ?case by simp
next
  case (Cons row rows)
  from Cons.prems obtain mid where one: "value_row target how vals row = Inr mid"
    and rest: "value_rows target how mid rows = Inr vals'"
    by (rule value_rows_split)
  from value_row_effect [OF one] assms(2-4) have "mid k = vals k" by blast
  moreover from Cons.IH [OF rest] have "vals' k = mid k" .
  ultimately show ?case by simp
qed

lemma value_rows_key:
  assumes step: "\<And>vals vals' row. value_row target how vals row = Inr vals' \<Longrightarrow>
            vals' K \<noteq> vals K \<Longrightarrow> multiple row = c \<and> \<not> unknown (row_stat row how) \<and> Q"
    and run: "value_rows target how vals rows = Inr vals'"
    and changed: "vals' K \<noteq> vals K"
  shows "(\<exists>row \<in> set rows. multiple row = c \<and> \<not> unknown (row_stat row how)) \<and> Q"
  using run changed
proof (induction rows arbitrary: vals)
  case Nil
  then show ?case by simp
next
  case (Cons row rows)
  from Cons.prems(1) obtain mid where one: "value_row target how vals row = Inr mid"
    and rest: "value_rows target how mid rows = Inr vals'"
    by (rule value_rows_split)
  show ?case
  proof (cases "mid K = vals K")
    case True
    with Cons.prems(2) have "vals' K \<noteq> mid K" by simp
    from Cons.IH [OF rest this] show ?thesis by auto
  next
    case False
    from step [OF one False] show ?thesis by auto
  qed
qed

lemma known_stat_has_peers:
  assumes "comp_data self = Some rows" and "calculate_multiples self = Inr stats"
    and "row \<in> set stats" and "\<not> unknown (row_stat row how)"
  shows "peer_values rows (multiple row) \<noteq> []"
proof
  assume empty: "peer_values rows (multiple row) = []"
  have ne: "rows \<noteq> []"
    using assms(1,2) calculate_multiples_no_rows [of self] by auto
  from peer_row_facts [OF assms(1) ne] assms(2,3) empty
  have u: "unknown (mean row)" "unknown (median row)" "unknown (min_stat row)"
    "unknown (max_stat row)"
    by auto
  then have "unknown (row_stat row how)" by (cases how) simp_all
  with assms(4) show False by simp
qed

lemma value_row_returns:
  assumes "figures target ''price'' \<noteq> None" and "figures target ''enterprise_value'' \<noteq> None"
  shows "\<exists>vals'. value_row target how vals row = Inr vals'"
  using assms
  by (auto simp: value_row_def bind_err_def truthy_def div_figures_def
      split: option.splits sum.splits)

lemma value_rows_returns:
  assumes "figures target ''price'' \<noteq> None" and "figures target ''enterprise_value'' \<noteq> None"
  shows "\<exists>vals'. value_rows target how vals rows = Inr vals'"
proof (induction rows arbitrary: vals)
  case Nil
  then show ?case by simp
next
  case (Cons row rows)
  from value_row_returns [OF assms] obtain mid where "value_row target how vals row = Inr mid"
    by blast
  with Cons.IH [of mid] show ?case by simp
qed

lemma three_peer_values: "peer_values three_peers ''pe_ratio'' = [24, 25, 26]"
  by (simp add: three_peers_def peer_values_def extract_metrics_def metric_sources_def
      quote_stock_def)

lemma priced_target_figures:
  "figures priced_target ''price'' = Some 50"
  "figures priced_target ''pe_ratio'' = Some 20"
  "figures priced_target ''enterprise_value'' = Some 1000"
  by (simp_all add: priced_target_def extract_metrics_def metric_sources_def quote_stock_def)

lemma priced_valuation:
  "value_target priced_analysis UseMedian =
     Inr (UseMedian, [''PE'' \<mapsto> ImpliedPrice (Fin 62.5) (Fin 25) (Some 50)])"
  by (simp add: priced_analysis_def priced_target_def three_peers_def value_target_def
      calculate_multiples_def multiple_cols_def frame_column_def extract_metrics_def
      metric_sources_def quote_stock_def column_stats_def dropna_def series_mean_def
      series_median_def series_min_def series_max_def series_std_def fl_sum_def
      stats_frame_def frame_cell_def value_row_def truthy_def div_figures_def Let_def
      fl_le_def fl_sub_def)

section \<open>The claims\<close>

subsection \<open>C1: the terminal value when the discount rate does not exceed the growth rate\<close>

text \<open>
  Claim C1 says that \<^verbatim>\<open>calculate_terminal_value\<close> fails with a DomainError whenever
  the discount rate r is at most the terminal growth rate g. The code has no such check:
  it evaluates the perpetuity formula as it stands. What holds for a finite final-year
  cash flow f and r \<le> g: when r < g the call returns f (1 + g) / (r - g), which is negative
  as soon as f (1 + g) is positive; when r = g the division is by zero, which raises
  ZeroDivisionError for a built-in float and yields an infinity or NaN for a numpy scalar
  (the kind the pipeline passes in).
\<close>

theorem terminal_value_unguarded:
  assumes "self_wacc self \<le> self_terminal_growth_rate self"
    and "val final_fcf = Fin f"
  shows "(self_wacc self < self_terminal_growth_rate self \<longrightarrow>
            (\<exists>tv. calculate_terminal_value self final_fcf = Inr tv
                 \<and> val tv = Fin (spec_terminalValue f (self_terminal_growth_rate self) (self_wacc self)))
          \<and> (0 < f * (1 + self_terminal_growth_rate self) \<longrightarrow>
                spec_terminalValue f (self_terminal_growth_rate self) (self_wacc self) < 0))
       \<and> (self_wacc self = self_terminal_growth_rate self \<longrightarrow>
            (\<not> is_np final_fcf \<longrightarrow>
                calculate_terminal_value self final_fcf = Inl ZeroDivisionError)
          \<and> (is_np final_fcf \<longrightarrow>
                (\<exists>tv. calculate_terminal_value self final_fcf = Inr tv \<and> \<not> is_fin (val tv))))"
proof (intro conjI impI)
  assume lt: "self_wacc self < self_terminal_growth_rate self"
  then show "\<exists>tv. calculate_terminal_value self final_fcf = Inr tv
      \<and> val tv = Fin (spec_terminalValue f (self_terminal_growth_rate self) (self_wacc self))"
    using assms(2)
    by (simp add: calculate_terminal_value_def py_truediv_def spec_terminalValue_def)
  assume "0 < f * (1 + self_terminal_growth_rate self)"
  with lt show "spec_terminalValue f (self_terminal_growth_rate self) (self_wacc self) < 0"
    by (simp add: spec_terminalValue_def divide_pos_neg)
next
  assume eq: "self_wacc self = self_terminal_growth_rate self"
  {
    assume "\<not> is_np final_fcf"
    with eq show "calculate_terminal_value self final_fcf = Inl ZeroDivisionError"
      by (simp add: calculate_terminal_value_def py_truediv_def py_mul_def)
  }
  {
    assume "is_np final_fcf"
    with eq assms(2)
    show "\<exists>tv. calculate_terminal_value self final_fcf = Inr tv \<and> \<not> is_fin (val tv)"
      by (simp add: calculate_terminal_value_def py_truediv_def py_mul_def)
  }
qed

text \<open>
  C1 fails as stated: with r = 0.02, g = 0.025 and a final cash flow of 100 the call
  returns the negative number -20500 and raises nothing.
\<close>

theorem terminal_value_negative_cex:
  "self_wacc (demo_model\<lparr>self_wacc := 0.02\<rparr>)
     \<le> self_terminal_growth_rate (demo_model\<lparr>self_wacc := 0.02\<rparr>)
   \<and> calculate_terminal_value (demo_model\<lparr>self_wacc := 0.02\<rparr>) (Py (Fin 100))
       = Inr (Py (Fin (- 20500)))"
  by (simp add: demo_model_def calculate_terminal_value_def py_truediv_def py_mul_def mk_def)

text \<open>
  The hypotheses of the C1 theorem are met by the section 8 model with r lowered to 0.02
  and to 0.025.
\<close>

theorem terminal_value_unguarded_witness:
  "self_wacc (demo_model\<lparr>self_wacc := 0.02\<rparr>)
     < self_terminal_growth_rate (demo_model\<lparr>self_wacc := 0.02\<rparr>)
   \<and> (\<exists>tv. calculate_terminal_value (demo_model\<lparr>self_wacc := 0.02\<rparr>) (Np (Fin 121)) = Inr tv
          \<and> val tv = Fin (- 24805))
   \<and> spec_terminalValue 121 0.025 0.02 < 0
   \<and> self_wacc (demo_model\<lparr>self_wacc := 0.025\<rparr>)
     = self_terminal_growth_rate (demo_model\<lparr>self_wacc := 0.025\<rparr>)
   \<and> calculate_terminal_value (demo_model\<lparr>self_wacc := 0.025\<rparr>) (Py (Fin 121))
       = Inl ZeroDivisionError
   \<and> (\<exists>tv. calculate_terminal_value (demo_model\<lparr>self_wacc := 0.025\<rparr>) (Np (Fin 121)) = Inr tv
          \<and> \<not> is_fin (val tv))"
  using terminal_value_unguarded [of "demo_model\<lparr>self_wacc := 0.02\<rparr>" "Np (Fin 121)" 121]
    terminal_value_unguarded [of "demo_model\<lparr>self_wacc := 0.025\<rparr>" "Py (Fin 121)" 121]
    terminal_value_unguarded [of "demo_model\<lparr>self_wacc := 0.025\<rparr>" "Np (Fin 121)" 121]
  by (simp add: demo_model_def spec_terminalValue_def)

subsection \<open>C2: which divisions are guarded\<close>




subsection \<open>C3: absent provider fields\<close>

text \<open>
  Claim C3 says an input absent from the provider data travels into the result as an
  unknown value and is never replaced by zero. The DCF code replaces it on purpose
  (\<^verbatim>\<open>except: cash = 0\<close>, \<^verbatim>\<open>info.get('sharesOutstanding', 0)\<close>). What holds
  for every run that returns a result: an absent cash or debt row and an absent share count
  or price are the integer 0 in the result, the value per share is 0 when the share count
  is absent, the upside is 0 when the price is absent, and the equity value is computed
  from those zeros; a figure of the comparable analysis that the provider does not deliver
  stays \<^verbatim>\<open>None\<close> in the metric record.
\<close>

theorem absent_fields_become_zero:
  assumes "calculate_enterprise_value self = Inr res"
  shows "(balance_sheet (self_stock self) ''Cash And Cash Equivalents'' = None \<longrightarrow>
            cash res = Py (Fin 0))
       \<and> (balance_sheet (self_stock self) ''Total Debt'' = None \<longrightarrow> debt res = Py (Fin 0))
       \<and> (info (self_stock self) ''sharesOutstanding'' = None \<longrightarrow>
            shares_outstanding res = Py (Fin 0) \<and> intrinsic_value_per_share res = Py (Fin 0))
       \<and> (info (self_stock self) ''currentPrice'' = None \<longrightarrow>
            current_price res = Py (Fin 0) \<and> upside_downside_pct res = Py (Fin 0))
       \<and> equity_value res = py_sub (py_add (enterprise_value res) (cash res)) (debt res)
       \<and> (\<forall>k src stock name. (k, src) \<in> set metric_sources \<and> info stock src = None \<longrightarrow>
             figures (extract_metrics stock name) k = None)"
proof -
  note r = result_fields [OF assms]
  have a: "balance_sheet (self_stock self) ''Cash And Cash Equivalents'' = None \<longrightarrow>
            cash res = Py (Fin 0)"
    by (simp add: r(1) balance_item_def)
  have b: "balance_sheet (self_stock self) ''Total Debt'' = None \<longrightarrow> debt res = Py (Fin 0)"
    by (simp add: r(2) balance_item_def)
  have c: "info (self_stock self) ''sharesOutstanding'' = None \<longrightarrow>
            shares_outstanding res = Py (Fin 0) \<and> intrinsic_value_per_share res = Py (Fin 0)"
    using r(5) by (simp add: r(3) info_get0_def py_gt_def)
  have d: "info (self_stock self) ''currentPrice'' = None \<longrightarrow>
            current_price res = Py (Fin 0) \<and> upside_downside_pct res = Py (Fin 0)"
    using r(6) by (simp add: r(4) info_get0_def py_gt_def)
  have e: "\<forall>k src stock name. (k, src) \<in> set metric_sources \<and> info stock src = None \<longrightarrow>
             figures (extract_metrics stock name) k = None"
  proof (intro allI impI)
    fix k src name and stock :: yf_stock
    assume "(k, src) \<in> set metric_sources \<and> info stock src = None"
    then show "figures (extract_metrics stock name) k = None"
      using extract_metrics_figure [of k src stock name] by simp
  qed
  from a b c d r(7) e show ?thesis by blast
qed

text \<open>
  C3 fails as stated: without a cash row the section 8 data yields cash 0, not an unknown
  value, and an equity value of 4700/3 + 0 - 20.
\<close>

theorem absent_cash_is_zero_cex:
  "balance_sheet (self_stock (demo_model\<lparr>self_stock := demo_stock\<lparr>balance_sheet := [''Total Debt'' \<mapsto> [20]]\<rparr>\<rparr>))
     ''Cash And Cash Equivalents'' = None
   \<and> map_sum id cash
        (calculate_enterprise_value
           (demo_model\<lparr>self_stock := demo_stock\<lparr>balance_sheet := [''Total Debt'' \<mapsto> [20]]\<rparr>\<rparr>))
       = Inr (Py (Fin 0))
   \<and> map_sum id (\<lambda>res. val (equity_value res))
        (calculate_enterprise_value
           (demo_model\<lparr>self_stock := demo_stock\<lparr>balance_sheet := [''Total Debt'' \<mapsto> [20]]\<rparr>\<rparr>))
       = Inr (Fin (4640 / 3))"
  by (simp add: demo_model_def demo_stock_def calculate_enterprise_value_def Let_def
      get_historical_fcf_def sort_index_def last_item_def calculate_fcf_growth_rate_def dropna_def
      series_median_def py_min_def py_max_def fl_sub_def project_fcf_def eval_nat_numeral
      py_mul_def py_add_def mk_def calculate_terminal_value_def py_truediv_def
      discount_cash_flows_def py_sum_def balance_item_def info_get0_def py_gt_def py_sub_def)

text \<open>
  The hypotheses of the C3 theorem are met by a stock for which the provider delivers the
  cash flow history and nothing else.
\<close>

theorem absent_fields_become_zero_witness:
  "balance_sheet (self_stock bare_model) ''Cash And Cash Equivalents'' = None
   \<and> balance_sheet (self_stock bare_model) ''Total Debt'' = None
   \<and> info (self_stock bare_model) ''sharesOutstanding'' = None
   \<and> info (self_stock bare_model) ''currentPrice'' = None
   \<and> (\<exists>res. calculate_enterprise_value bare_model = Inr res
        \<and> cash res = Py (Fin 0) \<and> debt res = Py (Fin 0)
        \<and> shares_outstanding res = Py (Fin 0) \<and> intrinsic_value_per_share res = Py (Fin 0)
        \<and> current_price res = Py (Fin 0) \<and> upside_downside_pct res = Py (Fin 0)
        \<and> val (equity_value res) = val (enterprise_value res))
   \<and> (''pe_ratio'', ''trailingPE'') \<in> set metric_sources
   \<and> info bare_stock ''trailingPE'' = None
   \<and> figures (extract_metrics bare_stock ''BARE'') ''pe_ratio'' = None"
proof -
  have absent: "balance_sheet (self_stock bare_model) ''Cash And Cash Equivalents'' = None"
    "balance_sheet (self_stock bare_model) ''Total Debt'' = None"
    "info (self_stock bare_model) ''sharesOutstanding'' = None"
    "info (self_stock bare_model) ''currentPrice'' = None"
    "info bare_stock ''trailingPE'' = None"
    by (simp_all add: bare_model_def bare_stock_def)
  have src: "(''pe_ratio'', ''trailingPE'') \<in> set metric_sources"
    by (simp add: metric_sources_def)
  have g: "val (calculate_fcf_growth_rate (map Fin [1000 / 11, 100])) = Fin 0.10"
    by (simp only: demo_growth val.simps)
  have "1 \<le> self_forecast_years bare_model"
    "self_wacc bare_model \<noteq> self_terminal_growth_rate bare_model" "self_wacc bare_model \<noteq> - 1"
    by (simp_all add: bare_model_def demo_model_def)
  from pipeline_finite [OF bare_history _ g this]
  obtain res ev where run: "calculate_enterprise_value bare_model = Inr res"
    and ev: "val (enterprise_value res) = Fin ev"
    by blast
  note t = absent_fields_become_zero [OF run]
  from t absent have z: "cash res = Py (Fin 0)" "debt res = Py (Fin 0)"
    "shares_outstanding res = Py (Fin 0)" "intrinsic_value_per_share res = Py (Fin 0)"
    "current_price res = Py (Fin 0)" "upside_downside_pct res = Py (Fin 0)"
    by blast+
  from t have "equity_value res = py_sub (py_add (enterprise_value res) (cash res)) (debt res)"
    by blast
  then have eq: "val (equity_value res) = val (enterprise_value res)"
    using z ev by simp
  from t src absent(5) have m: "figures (extract_metrics bare_stock ''BARE'') ''pe_ratio'' = None"
    by blast
  have "\<exists>res. calculate_enterprise_value bare_model = Inr res
        \<and> cash res = Py (Fin 0) \<and> debt res = Py (Fin 0)
        \<and> shares_outstanding res = Py (Fin 0) \<and> intrinsic_value_per_share res = Py (Fin 0)
        \<and> current_price res = Py (Fin 0) \<and> upside_downside_pct res = Py (Fin 0)
        \<and> val (equity_value res) = val (enterprise_value res)"
    using run z eq by blast
  with absent src m show ?thesis by blast
qed

subsection \<open>C4: a target without a price\<close>

text \<open>
  Claim C4 says \<^verbatim>\<open>value_target\<close> skips a multiple whose required target fields
  are missing and returns normally. The guard of the P/E rule tests the target's P/E only:
  for a target with a P/E of 20 and no current price, and one peer at 25 times earnings,
  \<^verbatim>\<open>None / 20\<close> raises TypeError.
\<close>

theorem value_target_missing_price:
  "map_sum id (\<lambda>self. map_option (\<lambda>t. figures t ''price'') (target_data self))
       (fetch_data demo_yf (init_comp ''TGT'' [''PEER''])) = Inr (Some None)
   \<and> map_sum id (\<lambda>self. map_option (\<lambda>t. figures t ''pe_ratio'') (target_data self))
       (fetch_data demo_yf (init_comp ''TGT'' [''PEER''])) = Inr (Some (Some 20))
   \<and> bind_err (fetch_data demo_yf (init_comp ''TGT'' [''PEER'']))
       (\<lambda>self. value_target self UseMedian) = Inl TypeError"
  by (simp add: fetch_data_def demo_yf_def init_comp_def value_target_def
      calculate_multiples_def multiple_cols_def frame_column_def extract_metrics_def
      metric_sources_def quote_stock_def column_stats_def dropna_def series_mean_def
      series_median_def series_min_def series_max_def series_std_def fl_sum_def
      stats_frame_def frame_cell_def value_row_def truthy_def div_figures_def Let_def)

subsection \<open>C5: the valuation pipeline\<close>



subsection \<open>C6: the growth rate is the clamped median of the period changes\<close>



subsection \<open>C7: the projected cash flows\<close>

text \<open>
  Claim C7: for a horizon of at least one year \<^verbatim>\<open>project_fcf\<close> returns exactly
  horizon values, the first is the base times (1 + g), each later one its predecessor
  times (1 + g); for finite inputs that is base (1 + g)^t, and a base of 100 at 10 percent
  over three years gives 110, 121 and 133.1.
\<close>

theorem project_fcf_sequence:
  assumes "1 \<le> self_forecast_years self"
  shows "length (project_fcf self base g) = nat (self_forecast_years self)
       \<and> project_fcf self base g ! 0 = py_mul base (py_add (Py (Fin 1)) g)
       \<and> (\<forall>i. Suc i < nat (self_forecast_years self) \<longrightarrow>
            project_fcf self base g ! Suc i =
              py_mul (project_fcf self base g ! i) (py_add (Py (Fin 1)) g))
       \<and> (\<forall>b r. val base = Fin b \<and> val g = Fin r \<longrightarrow>
            map val (project_fcf self base g) =
              map Fin (spec_project b r (nat (self_forecast_years self))))
       \<and> project_fcf (self\<lparr>self_forecast_years := 3\<rparr>) (Py (Fin 100)) (Py (Fin 0.10)) =
            [Py (Fin 110.0), Py (Fin 121.0), Py (Fin 133.1)]"
proof -
  let ?n = "nat (self_forecast_years self)"
  have pos: "0 < ?n" using assms by simp
  have a: "length (project_fcf self base g) = ?n"
    by (simp add: project_fcf_def length_project_loop)
  have b: "project_fcf self base g ! 0 = py_mul base (py_add (Py (Fin 1)) g)"
    using pos by (simp add: project_fcf_def project_loop_first)
  have c: "\<forall>i. Suc i < ?n \<longrightarrow>
            project_fcf self base g ! Suc i =
              py_mul (project_fcf self base g ! i) (py_add (Py (Fin 1)) g)"
    by (simp add: project_fcf_def project_loop_step)
  have d: "\<forall>b r. val base = Fin b \<and> val g = Fin r \<longrightarrow>
            map val (project_fcf self base g) = map Fin (spec_project b r ?n)"
  proof (intro allI impI)
    fix b r assume h: "val base = Fin b \<and> val g = Fin r"
    show "map val (project_fcf self base g) = map Fin (spec_project b r ?n)"
    proof (rule nth_equalityI)
      show "length (map val (project_fcf self base g)) = length (map Fin (spec_project b r ?n))"
        by (simp add: a spec_project_def)
    next
      fix i assume "i < length (map val (project_fcf self base g))"
      then have i: "i < ?n" by (simp add: a)
      then show "map val (project_fcf self base g) ! i = map Fin (spec_project b r ?n) ! i"
        using h project_loop_closed [of base b g r i ?n]
        by (simp add: a project_fcf_def length_project_loop spec_project_def del: upt_Suc)
    qed
  qed
  have e: "project_fcf (self\<lparr>self_forecast_years := 3\<rparr>) (Py (Fin 100)) (Py (Fin 0.10)) =
            [Py (Fin 110.0), Py (Fin 121.0), Py (Fin 133.1)]"
    by (simp add: project_fcf_def eval_nat_numeral Let_def py_mul_def py_add_def mk_def)
  from a b c d e show ?thesis by blast
qed

text \<open>
  The hypothesis of the C7 theorem is met by a three-year model.
\<close>

theorem project_fcf_sequence_witness:
  "1 \<le> self_forecast_years (demo_model\<lparr>self_forecast_years := 3\<rparr>)
   \<and> length (project_fcf (demo_model\<lparr>self_forecast_years := 3\<rparr>) (Np (Fin 100)) (Py (Fin 0.10))) = 3
   \<and> project_fcf (demo_model\<lparr>self_forecast_years := 3\<rparr>) (Np (Fin 100)) (Py (Fin 0.10)) ! 0
       = Np (Fin 110)
   \<and> project_fcf (demo_model\<lparr>self_forecast_years := 3\<rparr>) (Np (Fin 100)) (Py (Fin 0.10)) ! 1
       = Np (Fin 121)
   \<and> map val (project_fcf (demo_model\<lparr>self_forecast_years := 3\<rparr>) (Np (Fin 100)) (Py (Fin 0.10)))
       = [Fin 110, Fin 121, Fin 133.1]"
proof -
  let ?m = "demo_model\<lparr>self_forecast_years := 3\<rparr>"
  let ?p = "project_fcf ?m (Np (Fin 100)) (Py (Fin 0.10))"
  have h: "1 \<le> self_forecast_years ?m" by (simp add: demo_model_def)
  note t = project_fcf_sequence [OF h, of "Np (Fin 100)" "Py (Fin 0.10)"]
  have n: "nat (self_forecast_years ?m) = 3" by (simp add: demo_model_def)
  from t have len: "length ?p = 3" unfolding n by blast
  from t have first: "?p ! 0 = py_mul (Np (Fin 100)) (py_add (Py (Fin 1)) (Py (Fin 0.10)))"
    by blast
  from t have "Suc 0 < nat (self_forecast_years ?m) \<longrightarrow>
      ?p ! Suc 0 = py_mul (?p ! 0) (py_add (Py (Fin 1)) (Py (Fin 0.10)))"
    by blast
  then have second: "?p ! 1 = py_mul (?p ! 0) (py_add (Py (Fin 1)) (Py (Fin 0.10)))"
    unfolding n by simp
  from t have "val (Np (Fin 100)) = Fin 100 \<and> val (Py (Fin 0.10)) = Fin 0.10 \<longrightarrow>
      map val ?p = map Fin (spec_project 100 0.10 (nat (self_forecast_years ?m)))"
    by blast
  then have closed: "map val ?p = map Fin (spec_project 100 0.10 3)"
    unfolding n by simp
  have f: "?p ! 0 = Np (Fin 110)"
    unfolding first by (simp add: py_mul_def py_add_def mk_def)
  have s: "?p ! 1 = Np (Fin 121)"
    unfolding second f by (simp add: py_mul_def py_add_def mk_def)
  have c: "map val ?p = [Fin 110, Fin 121, Fin 133.1]"
    unfolding closed by (simp add: spec_project_def eval_nat_numeral)
  from h len f s c show ?thesis by blast
qed

subsection \<open>C8: the statistics of an empty peer group\<close>

text \<open>
  Claim C8 says \<^verbatim>\<open>calculate_multiples\<close> returns count 0 and unknown aggregates,
  and raises nothing, whenever no peer provides a multiple. With no peers at all
  \<^verbatim>\<open>fetch_data\<close> stores a frame built from the empty list, which has no columns, and
  the first column access raises KeyError.
\<close>

theorem calculate_multiples_without_peers:
  "map_sum id comp_data (fetch_data demo_yf (init_comp ''TGT'' [])) = Inr (Some [])
   \<and> bind_err (fetch_data demo_yf (init_comp ''TGT'' [])) calculate_multiples = Inl KeyError"
  by (simp add: fetch_data_def demo_yf_def init_comp_def calculate_multiples_def
      multiple_cols_def frame_column_def)

subsection \<open>C9: the growth rate on a history of zeros\<close>

text \<open>
  Claim C9 says the growth rate always lies in [-0.10, 0.25], also when zeros in the
  series make a period change undefined. On the history 0, 0 the only change is 0/0,
  \<^verbatim>\<open>dropna\<close> removes it, the median of nothing is NaN, and Python's
  \<^verbatim>\<open>min\<close> and \<^verbatim>\<open>max\<close> let NaN through: the result is NaN, which is
  neither at least -0.10 nor at most 0.25.
\<close>

theorem growth_rate_nan_on_zero_history:
  "calculate_fcf_growth_rate (map Fin [0, 0]) = Np NaN
   \<and> \<not> fl_le (Fin (- 0.10)) (val (calculate_fcf_growth_rate (map Fin [0, 0])))
   \<and> \<not> fl_le (val (calculate_fcf_growth_rate (map Fin [0, 0]))) (Fin 0.25)"
  by (simp add: calculate_fcf_growth_rate_def dropna_def series_median_def py_min_def
      py_max_def fl_sub_def fl_le_def)

subsection \<open>C10: a multiple that one peer provides\<close>

text \<open>
  Claim C10: when exactly one peer provides a multiple, its row of the statistics has
  count 1, mean, median, minimum and maximum equal to that one value, and a standard
  deviation that is NaN (the sample standard deviation of one value).
\<close>

theorem single_peer_statistics:
  assumes "comp_data self = Some rows"
    and "col \<in> set multiple_cols"
    and "peer_values rows col = [v]"
  shows "\<exists>stats. calculate_multiples self = Inr stats
     \<and> (\<exists>row \<in> set stats. multiple row = col)
     \<and> (\<forall>row \<in> set stats. multiple row = col \<longrightarrow>
           count row = 1 \<and> mean row = Some (Fin v) \<and> median row = Some (Fin v)
         \<and> min_stat row = Some (Fin v) \<and> max_stat row = Some (Fin v)
         \<and> std row = Some NaN)"
proof -
  have ne: "rows \<noteq> []" using assms(3) peer_values_nonempty_rows [of rows col] by simp
  from peer_row_facts [OF assms(1) ne]
  obtain stats where run: "calculate_multiples self = Inr stats"
    and names: "map multiple stats = multiple_cols"
    and facts: "\<forall>row \<in> set stats.
          count row = length (peer_values rows (multiple row))
        \<and> (peer_values rows (multiple row) \<noteq> [] \<longrightarrow>
             mean row = Some (Fin (spec_mean (peer_values rows (multiple row))))
           \<and> median row = Some (Fin (spec_median (peer_values rows (multiple row))))
           \<and> min_stat row = Some (Fin (Min (set (peer_values rows (multiple row)))))
           \<and> max_stat row = Some (Fin (Max (set (peer_values rows (multiple row)))))
           \<and> std row = Some (if length (peer_values rows (multiple row)) = 1 then NaN
                              else Fin (spec_sample_std (peer_values rows (multiple row)))))"
    by blast
  have "col \<in> set (map multiple stats)" using assms(2) names by simp
  then have ex: "\<exists>row \<in> set stats. multiple row = col" by auto
  have all: "\<forall>row \<in> set stats. multiple row = col \<longrightarrow>
           count row = 1 \<and> mean row = Some (Fin v) \<and> median row = Some (Fin v)
         \<and> min_stat row = Some (Fin v) \<and> max_stat row = Some (Fin v)
         \<and> std row = Some NaN"
  proof (intro ballI impI)
    fix row assume "row \<in> set stats" and "multiple row = col"
    with facts assms(3)
    show "count row = 1 \<and> mean row = Some (Fin v) \<and> median row = Some (Fin v)
         \<and> min_stat row = Some (Fin v) \<and> max_stat row = Some (Fin v)
         \<and> std row = Some NaN"
      by (auto simp: spec_mean_def spec_median_def)
  qed
  from run ex all show ?thesis by blast
qed

text \<open>
  The hypotheses of the C10 theorem are met by two peers of which one reports a P/E of
  25.
\<close>

theorem single_peer_statistics_witness:
  "comp_data ((init_comp ''TGT'' [''A'', ''B''])
      \<lparr>comp_data := Some [extract_metrics (quote_stock [''trailingPE'' \<mapsto> 25]) ''A'',
                          extract_metrics (quote_stock Map.empty) ''B'']\<rparr>)
     = Some [extract_metrics (quote_stock [''trailingPE'' \<mapsto> 25]) ''A'',
             extract_metrics (quote_stock Map.empty) ''B'']
   \<and> ''pe_ratio'' \<in> set multiple_cols
   \<and> peer_values [extract_metrics (quote_stock [''trailingPE'' \<mapsto> 25]) ''A'',
                   extract_metrics (quote_stock Map.empty) ''B''] ''pe_ratio'' = [25]
   \<and> (\<exists>stats row.
         calculate_multiples ((init_comp ''TGT'' [''A'', ''B''])
            \<lparr>comp_data := Some [extract_metrics (quote_stock [''trailingPE'' \<mapsto> 25]) ''A'',
                                extract_metrics (quote_stock Map.empty) ''B'']\<rparr>) = Inr stats
       \<and> row \<in> set stats \<and> multiple row = ''pe_ratio'' \<and> count row = 1
       \<and> mean row = Some (Fin 25) \<and> median row = Some (Fin 25)
       \<and> min_stat row = Some (Fin 25) \<and> max_stat row = Some (Fin 25)
       \<and> std row = Some NaN)"
proof -
  let ?rows = "[extract_metrics (quote_stock [''trailingPE'' \<mapsto> 25]) ''A'',
                extract_metrics (quote_stock Map.empty) ''B'']"
  let ?self = "(init_comp ''TGT'' [''A'', ''B''])\<lparr>comp_data := Some ?rows\<rparr>"
  have h1: "comp_data ?self = Some ?rows" by simp
  have h2: "''pe_ratio'' \<in> set multiple_cols" by (simp add: multiple_cols_def)
  note h3 = demo_peer_values
  from single_peer_statistics [OF h1 h2 h3]
  obtain stats where run: "calculate_multiples ?self = Inr stats"
    and ex: "\<exists>row \<in> set stats. multiple row = ''pe_ratio''"
    and all: "\<forall>row \<in> set stats. multiple row = ''pe_ratio'' \<longrightarrow>
           count row = 1 \<and> mean row = Some (Fin 25) \<and> median row = Some (Fin 25)
         \<and> min_stat row = Some (Fin 25) \<and> max_stat row = Some (Fin 25)
         \<and> std row = Some NaN"
    by blast
  from ex obtain row where "row \<in> set stats" "multiple row = ''pe_ratio''" by blast
  with all run have "\<exists>stats row. calculate_multiples ?self = Inr stats
       \<and> row \<in> set stats \<and> multiple row = ''pe_ratio'' \<and> count row = 1
       \<and> mean row = Some (Fin 25) \<and> median row = Some (Fin 25)
       \<and> min_stat row = Some (Fin 25) \<and> max_stat row = Some (Fin 25)
       \<and> std row = Some NaN"
    by blast
  with h1 h2 h3 show ?thesis by blast
qed

subsection \<open>The statistics of a non-empty peer group\<close>

text \<open>
  Beyond the listed claims (X1): for every non-empty set of peer records
  \<^verbatim>\<open>calculate_multiples\<close> returns one row per multiple, in the order of the column
  list; the count of a row is the number of peers that provide the multiple; with no such
  peer every aggregate of the row is unknown; otherwise the row holds the mean, the median
  as the middle value (the average of the two middle values for an even count), the minimum,
  the maximum, and the sample standard deviation, which is NaN for a single value.
\<close>

theorem peer_statistics:
  assumes "comp_data self = Some rows" and "rows \<noteq> []"
  shows "\<exists>stats. calculate_multiples self = Inr stats
     \<and> map multiple stats = multiple_cols
     \<and> (\<forall>row \<in> set stats.
          count row = length (peer_values rows (multiple row))
        \<and> (peer_values rows (multiple row) = [] \<longrightarrow>
             unknown (mean row) \<and> unknown (median row) \<and> unknown (min_stat row)
           \<and> unknown (max_stat row) \<and> unknown (std row))
        \<and> (peer_values rows (multiple row) \<noteq> [] \<longrightarrow>
             mean row = Some (Fin (spec_mean (peer_values rows (multiple row))))
           \<and> median row = Some (Fin (spec_median (peer_values rows (multiple row))))
           \<and> min_stat row = Some (Fin (Min (set (peer_values rows (multiple row)))))
           \<and> max_stat row = Some (Fin (Max (set (peer_values rows (multiple row)))))
           \<and> std row = Some (if length (peer_values rows (multiple row)) = 1 then NaN
                              else Fin (spec_sample_std (peer_values rows (multiple row))))))"
  using peer_row_facts [OF assms] .

text \<open>
  Three peers at 24, 25 and 26 times earnings: count 3, mean and median 25, minimum 24,
  maximum 26, standard deviation 1; no peer reports a price-to-book ratio, so that row has
  count 0 and unknown aggregates.
\<close>

theorem peer_statistics_witness:
  "comp_data priced_analysis = Some three_peers \<and> three_peers \<noteq> []
   \<and> peer_values three_peers ''pe_ratio'' = [24, 25, 26]
   \<and> peer_values three_peers ''price_to_book'' = []
   \<and> (\<exists>stats pe pb. calculate_multiples priced_analysis = Inr stats
        \<and> pe \<in> set stats \<and> multiple pe = ''pe_ratio'' \<and> count pe = 3
        \<and> mean pe = Some (Fin 25) \<and> median pe = Some (Fin 25)
        \<and> min_stat pe = Some (Fin 24) \<and> max_stat pe = Some (Fin 26)
        \<and> std pe = Some (Fin 1)
        \<and> pb \<in> set stats \<and> multiple pb = ''price_to_book'' \<and> count pb = 0
        \<and> unknown (mean pb) \<and> unknown (median pb) \<and> unknown (min_stat pb)
        \<and> unknown (max_stat pb) \<and> unknown (std pb))"
proof -
  have h1: "comp_data priced_analysis = Some three_peers" by (simp add: priced_analysis_def)
  have h2: "three_peers \<noteq> []" by (simp add: three_peers_def)
  note v = three_peer_values
  have w: "peer_values three_peers ''price_to_book'' = []"
    by (simp add: three_peers_def peer_values_def extract_metrics_def metric_sources_def
        quote_stock_def)
  from peer_statistics [OF h1 h2]
  obtain stats where run: "calculate_multiples priced_analysis = Inr stats"
    and names: "map multiple stats = multiple_cols"
    and facts: "\<forall>row \<in> set stats.
          count row = length (peer_values three_peers (multiple row))
        \<and> (peer_values three_peers (multiple row) = [] \<longrightarrow>
             unknown (mean row) \<and> unknown (median row) \<and> unknown (min_stat row)
           \<and> unknown (max_stat row) \<and> unknown (std row))
        \<and> (peer_values three_peers (multiple row) \<noteq> [] \<longrightarrow>
             mean row = Some (Fin (spec_mean (peer_values three_peers (multiple row))))
           \<and> median row = Some (Fin (spec_median (peer_values three_peers (multiple row))))
           \<and> min_stat row = Some (Fin (Min (set (peer_values three_peers (multiple row)))))
           \<and> max_stat row = Some (Fin (Max (set (peer_values three_peers (multiple row)))))
           \<and> std row = Some (if length (peer_values three_peers (multiple row)) = 1 then NaN
                              else Fin (spec_sample_std (peer_values three_peers (multiple row)))))"
    by blast
  have "''pe_ratio'' \<in> set (map multiple stats)" "''price_to_book'' \<in> set (map multiple stats)"
    unfolding names by (simp_all add: multiple_cols_def)
  then obtain pe pb where pe: "pe \<in> set stats" "multiple pe = ''pe_ratio''"
    and pb: "pb \<in> set stats" "multiple pb = ''price_to_book''"
    by auto
  from facts pe v have a: "count pe = 3" "mean pe = Some (Fin 25)" "median pe = Some (Fin 25)"
    "min_stat pe = Some (Fin 24)" "max_stat pe = Some (Fin 26)" "std pe = Some (Fin 1)"
    by (auto simp: spec_mean_def spec_median_def spec_sample_std_def)
  from facts pb w have b: "count pb = 0" "unknown (mean pb)" "unknown (median pb)"
    "unknown (min_stat pb)" "unknown (max_stat pb)" "unknown (std pb)"
    by auto
  from run pe pb a b have "\<exists>stats pe pb. calculate_multiples priced_analysis = Inr stats
        \<and> pe \<in> set stats \<and> multiple pe = ''pe_ratio'' \<and> count pe = 3
        \<and> mean pe = Some (Fin 25) \<and> median pe = Some (Fin 25)
        \<and> min_stat pe = Some (Fin 24) \<and> max_stat pe = Some (Fin 26)
        \<and> std pe = Some (Fin 1)
        \<and> pb \<in> set stats \<and> multiple pb = ''price_to_book'' \<and> count pb = 0
        \<and> unknown (mean pb) \<and> unknown (median pb) \<and> unknown (min_stat pb)
        \<and> unknown (max_stat pb) \<and> unknown (std pb)"
    by blast
  with h1 h2 v w show ?thesis by blast
qed

subsection \<open>Which entries a comparable valuation can hold\<close>

text \<open>
  Beyond the listed claims (X2): whenever \<^verbatim>\<open>value_target\<close> returns, its
  valuations have no key other than PE, P/B and EV/EBITDA, and a key is present only if
  some peer provides the multiple, the target's own multiple is present and not zero, and
  (PE, P/B) the target's price is present and not zero or (EV/EBITDA) the target's
  enterprise value is present. So a multiple whose peer statistic is unknown, or whose
  target multiple is missing or zero, contributes no entry.
\<close>

theorem value_target_entries:
  assumes "value_target self how = Inr (m, vals)"
    and "target_data self = Some target"
    and "comp_data self = Some rows"
  shows "m = how
    \<and> (\<forall>k. k \<noteq> ''PE'' \<and> k \<noteq> ''P/B'' \<and> k \<noteq> ''EV/EBITDA'' \<longrightarrow> vals k = None)
    \<and> (vals ''PE'' \<noteq> None \<longrightarrow>
          peer_values rows ''pe_ratio'' \<noteq> [] \<and> truthy (figures target ''pe_ratio'')
        \<and> truthy (figures target ''price''))
    \<and> (vals ''P/B'' \<noteq> None \<longrightarrow>
          peer_values rows ''price_to_book'' \<noteq> [] \<and> truthy (figures target ''price_to_book'')
        \<and> truthy (figures target ''price''))
    \<and> (vals ''EV/EBITDA'' \<noteq> None \<longrightarrow>
          peer_values rows ''ev_to_ebitda'' \<noteq> [] \<and> truthy (figures target ''ev_to_ebitda'')
        \<and> figures target ''enterprise_value'' \<noteq> None)"
proof -
  from assms obtain stats where st: "calculate_multiples self = Inr stats"
    and run: "value_rows target how Map.empty stats = Inr vals" and m: "m = how"
    by (auto simp: value_target_def bind_err_def split: sum.splits)
  have peers: "peer_values rows c \<noteq> []"
    if "\<exists>r \<in> set stats. multiple r = c \<and> \<not> unknown (row_stat r how)" for c
    using that known_stat_has_peers [OF assms(3) st] by blast
  have k: "\<forall>k. k \<noteq> ''PE'' \<and> k \<noteq> ''P/B'' \<and> k \<noteq> ''EV/EBITDA'' \<longrightarrow> vals k = None"
    using value_rows_other [OF run] by simp
  have pe: "vals ''PE'' \<noteq> None \<longrightarrow>
          peer_values rows ''pe_ratio'' \<noteq> [] \<and> truthy (figures target ''pe_ratio'')
        \<and> truthy (figures target ''price'')"
  proof
    assume "vals ''PE'' \<noteq> None"
    then have ch: "vals ''PE'' \<noteq> Map.empty ''PE''" by simp
    have "(\<exists>row \<in> set stats. multiple row = ''pe_ratio'' \<and> \<not> unknown (row_stat row how))
        \<and> (truthy (figures target ''pe_ratio'') \<and> truthy (figures target ''price''))"
      by (rule value_rows_key [OF _ run ch]) (use value_row_effect in blast)
    with peers show "peer_values rows ''pe_ratio'' \<noteq> [] \<and> truthy (figures target ''pe_ratio'')
        \<and> truthy (figures target ''price'')"
      by blast
  qed
  have pb: "vals ''P/B'' \<noteq> None \<longrightarrow>
          peer_values rows ''price_to_book'' \<noteq> [] \<and> truthy (figures target ''price_to_book'')
        \<and> truthy (figures target ''price'')"
  proof
    assume "vals ''P/B'' \<noteq> None"
    then have ch: "vals ''P/B'' \<noteq> Map.empty ''P/B''" by simp
    have "(\<exists>row \<in> set stats. multiple row = ''price_to_book'' \<and> \<not> unknown (row_stat row how))
        \<and> (truthy (figures target ''price_to_book'') \<and> truthy (figures target ''price''))"
      by (rule value_rows_key [OF _ run ch]) (use value_row_effect in blast)
    with peers show "peer_values rows ''price_to_book'' \<noteq> []
        \<and> truthy (figures target ''price_to_book'') \<and> truthy (figures target ''price'')"
      by blast
  qed
  have ev: "vals ''EV/EBITDA'' \<noteq> None \<longrightarrow>
          peer_values rows ''ev_to_ebitda'' \<noteq> [] \<and> truthy (figures target ''ev_to_ebitda'')
        \<and> figures target ''enterprise_value'' \<noteq> None"
  proof
    assume "vals ''EV/EBITDA'' \<noteq> None"
    then have ch: "vals ''EV/EBITDA'' \<noteq> Map.empty ''EV/EBITDA''" by simp
    have "(\<exists>row \<in> set stats. multiple row = ''ev_to_ebitda'' \<and> \<not> unknown (row_stat row how))
        \<and> (truthy (figures target ''ev_to_ebitda'') \<and> figures target ''enterprise_value'' \<noteq> None)"
      by (rule value_rows_key [OF _ run ch]) (use value_row_effect in blast)
    with peers show "peer_values rows ''ev_to_ebitda'' \<noteq> []
        \<and> truthy (figures target ''ev_to_ebitda'') \<and> figures target ''enterprise_value'' \<noteq> None"
      by blast
  qed
  from m k pe pb ev show ?thesis by blast
qed

text \<open>
  The specification's example: a target priced at 50 on 20 times earnings and a peer
  median of 25 give an implied price of 62.5 as the only entry.
\<close>

theorem value_target_entries_witness:
  "value_target priced_analysis UseMedian =
     Inr (UseMedian, [''PE'' \<mapsto> ImpliedPrice (Fin 62.5) (Fin 25) (Some 50)])
   \<and> target_data priced_analysis = Some priced_target
   \<and> comp_data priced_analysis = Some three_peers
   \<and> [''PE'' \<mapsto> ImpliedPrice (Fin 62.5) (Fin 25) (Some 50)] ''PE'' \<noteq> None
   \<and> peer_values three_peers ''pe_ratio'' \<noteq> []
   \<and> truthy (figures priced_target ''pe_ratio'')
   \<and> truthy (figures priced_target ''price'')
   \<and> [''PE'' \<mapsto> ImpliedPrice (Fin 62.5) (Fin 25) (Some 50)] ''forward_pe'' = None"
proof -
  have h2: "target_data priced_analysis = Some priced_target"
    and h3: "comp_data priced_analysis = Some three_peers"
    by (simp_all add: priced_analysis_def)
  note t = value_target_entries [OF priced_valuation h2 h3]
  note others = t [THEN conjunct2, THEN conjunct1]
  note pe = t [THEN conjunct2, THEN conjunct2, THEN conjunct1]
  have p: "[''PE'' \<mapsto> ImpliedPrice (Fin 62.5) (Fin 25) (Some 50)] ''PE'' \<noteq> None" by simp
  from pe [rule_format, OF p] have a: "peer_values three_peers ''pe_ratio'' \<noteq> []"
    "truthy (figures priced_target ''pe_ratio'')" "truthy (figures priced_target ''price'')"
    by simp_all
  have "''forward_pe'' \<noteq> ''PE'' \<and> ''forward_pe'' \<noteq> ''P/B'' \<and> ''forward_pe'' \<noteq> ''EV/EBITDA''"
    by simp
  from others [rule_format, OF this]
  have b: "[''PE'' \<mapsto> ImpliedPrice (Fin 62.5) (Fin 25) (Some 50)] ''forward_pe'' = None" .
  show ?thesis
    by (intro conjI) (rule priced_valuation h2 h3 p a b)+
qed

subsection \<open>When a comparable valuation returns\<close>

text \<open>
  Beyond the listed claims (X3): with at least one peer record and a target whose price
  and enterprise value are present, \<^verbatim>\<open>value_target\<close> returns normally for every
  statistic, whatever else is missing.
\<close>

theorem value_target_returns:
  assumes "target_data self = Some target" and "comp_data self = Some rows"
    and "rows \<noteq> []"
    and "figures target ''price'' \<noteq> None" and "figures target ''enterprise_value'' \<noteq> None"
  shows "\<exists>vals. value_target self how = Inr (how, vals)"
proof -
  from peer_row_facts [OF assms(2,3)] obtain stats where "calculate_multiples self = Inr stats"
    by blast
  moreover from value_rows_returns [OF assms(4,5)]
  obtain vals where "value_rows target how Map.empty stats = Inr vals" by blast
  ultimately show ?thesis using assms(1,2) by (simp add: value_target_def)
qed

text \<open>
  The priced target and its three peers meet the hypotheses.
\<close>

theorem value_target_returns_witness:
  "target_data priced_analysis = Some priced_target
   \<and> comp_data priced_analysis = Some three_peers
   \<and> three_peers \<noteq> []
   \<and> figures priced_target ''price'' \<noteq> None
   \<and> figures priced_target ''enterprise_value'' \<noteq> None
   \<and> (\<exists>vals. value_target priced_analysis UseMax = Inr (UseMax, vals))"
proof -
  have h1: "target_data priced_analysis = Some priced_target"
    and h2: "comp_data priced_analysis = Some three_peers"
    by (simp_all add: priced_analysis_def)
  have h3: "three_peers \<noteq> []" by (simp add: three_peers_def)
  have h4: "figures priced_target ''price'' \<noteq> None"
    and h5: "figures priced_target ''enterprise_value'' \<noteq> None"
    by (simp_all add: priced_target_figures)
  note r = value_target_returns [OF h1 h2 h3 h4 h5, of UseMax]
  show ?thesis
    by (intro conjI) (rule h1 h2 h3 h4 h5 r)+
qed

end
